theory Spec2Isabelle
  imports Main "HOL-Library.Word"
begin

section \<open>The translator page controller (static/css/js/script.js)\<close>

text \<open>
  The script is an event-driven controller of one page. Its handlers are embedded as
  functions on an explicit page state: the properties of the DOM elements the script
  reads or writes, its two module variables, the \<open>detectTimeout\<close> variable of
  \<open>init\<close>, and what the browser holds for it (pending timers, requests in flight,
  the notifications attached to the document, the elements of class \<open>alert\<close> that
  markup written to the result area created). Each \<open>async\<close> handler is split at its
  suspension: the part that runs synchronously up to \<open>await fetch(...)\<close>, and the
  part that resumes once \<open>response.json()\<close> has settled. Nothing of the page is read
  or written between the two \<open>await\<close>s of a handler, so they are one suspension here.
\<close>

subsection \<open>Strings\<close>

text \<open>A JavaScript string is a sequence of 16-bit code units; \<open>length\<close> counts them.\<close>

type_synonym jsstr = "16 word list"

definition lit :: "string \<Rightarrow> jsstr" where
  "lit cs = map (\<lambda>c. of_char c) cs"

text \<open>\<open>String.prototype.trim\<close> strips WhiteSpace and LineTerminator code units from both ends.\<close>

definition isWhiteSpace :: "16 word \<Rightarrow> bool" where
  "isWhiteSpace c \<longleftrightarrow>
     c = 0x0009 \<or> c = 0x000A \<or> c = 0x000B \<or> c = 0x000C \<or> c = 0x000D \<or> c = 0x0020 \<or>
     c = 0x00A0 \<or> c = 0x1680 \<or> (0x2000 \<le> c \<and> c \<le> 0x200A) \<or> c = 0x2028 \<or>
     c = 0x2029 \<or> c = 0x202F \<or> c = 0x205F \<or> c = 0x3000 \<or> c = 0xFEFF"

definition trim :: "jsstr \<Rightarrow> jsstr" where
  "trim s = rev (dropWhile isWhiteSpace (rev (dropWhile isWhiteSpace s)))"

text \<open>
  The value a text area returns for a string assigned to it: every CR LF pair and
  every other CR has become a LF.
\<close>

fun normalize_newlines :: "jsstr \<Rightarrow> jsstr" where
  "normalize_newlines [] = []"
| "normalize_newlines [c] = [if c = 0x000D then 0x000A else c]"
| "normalize_newlines (c # d # cs) =
     (if c = 0x000D \<and> d = 0x000A then 0x000A # normalize_newlines cs
      else if c = 0x000D then 0x000A # normalize_newlines (d # cs)
      else c # normalize_newlines (d # cs))"

text \<open>A non-negative integer converted to a string (decimal digits).\<close>

fun number_toString :: "nat \<Rightarrow> jsstr" where
  "number_toString n =
     (if n < 10 then [of_nat (48 + n)]
      else number_toString (n div 10) @ [of_nat (48 + n mod 10)])"

declare number_toString.simps [simp del]

subsection \<open>Page state\<close>

text \<open>A notification element created by \<open>showAlert\<close>, while it is attached to the document.\<close>

record alert =
  aid :: nat
  className :: jsstr
  message :: jsstr
  animation :: jsstr

text \<open>The callbacks the script passes to \<open>setTimeout\<close>, and a pending timer.\<close>

datatype callback =
    CbDetectLanguage
  | CbAlertAutoRemove nat
  | CbAlertRemove nat
  | CbCopyRevert
  | CbAutoplay

record timer =
  tid :: nat
  due :: nat
  cb :: callback

text \<open>A request passed to \<open>fetch\<close>: the URL and the fields of the JSON body.\<close>

record request =
  url :: jsstr
  body :: "(jsstr \<times> jsstr) list"

text \<open>The async handler suspended on a request in flight.\<close>

datatype handler = HDetectLanguage | HTranslate | HGenerateSpeech

text \<open>
  The parsed response body, with the fields of the three endpoints; the fields hold
  strings, \<open>success\<close> is the truthiness of \<open>data.success\<close>, and \<open>error\<close> is
  \<open>None\<close> when the field is absent. \<open>Rejected m\<close> stands for \<open>fetch\<close> or
  \<open>response.json()\<close> rejecting (network failure, body that is not JSON), or the
  body being \<open>null\<close> so that reading \<open>data.success\<close> throws: an error object of
  message \<open>m\<close> reaches the \<open>catch\<close> block.

  \<open>translate\<close> writes \<open>source_lang\<close>, \<open>target_lang\<close> and \<open>translated_text\<close>
  unescaped into \<open>outputText.innerHTML\<close>, where the browser parses them as markup.
  \<open>result_alerts\<close> is the number of elements of class \<open>alert\<close> in what it parses
  from the result template filled with these three fields: 0 when they hold plain
  text, 1 when the translated text is \<open><i class=alert></i>\<close>.
\<close>

record data =
  success :: bool
  language :: jsstr
  code :: jsstr
  translated_text :: jsstr
  source_lang :: jsstr
  source_code :: jsstr
  target_lang :: jsstr
  target_code :: jsstr
  audio_url :: jsstr
  error :: "jsstr option"
  result_alerts :: nat

datatype outcome = Rejected jsstr | Resolved data

text \<open>What \<open>outputText.innerHTML\<close> holds: one of the two templates the script writes, or other markup.\<close>

datatype markup =
    Placeholder
  | TranslationResult jsstr jsstr jsstr
  | Markup jsstr

record state =
  inputText_value :: jsstr
  outputText_innerHTML :: markup
  outputText_alerts :: nat
  translateBtn_disabled :: bool
  translateBtn_innerHTML :: jsstr
  speakBtn_disabled :: bool
  speakBtn_innerHTML :: jsstr
  copyBtn_disabled :: bool
  copyBtn_innerHTML :: jsstr
  downloadBtn_disabled :: bool
  targetLang_options :: "(jsstr \<times> jsstr) list"
  targetLang_selectedIndex :: "nat option"
  detectedLang_textContent :: jsstr
  detectedLangCode_textContent :: jsstr
  targetLangName_textContent :: jsstr
  targetLangCode_textContent :: jsstr
  audioPlayer_display :: jsstr
  audioElement_src :: jsstr
  downloadAudio_href :: jsstr
  downloadAudio_download :: jsstr
  audioStatus_textContent :: jsstr
  charCounter_textContent :: jsstr
  charCounter_color :: jsstr
  currentTranslation :: jsstr
  currentAudioUrl :: jsstr
  detectTimeout :: "nat option"
  alerts :: "alert list"
  next_aid :: nat
  timers :: "timer list"
  next_tid :: nat
  clock :: nat
  fetches :: "request list"
  pending :: "(nat \<times> handler) list"
  next_rid :: nat
  clipboard :: "jsstr list"
  clipboard_pending :: "nat list"
  next_cid :: nat

text \<open>
  \<open>targetLang\<close> is a select element: \<open>targetLang_options\<close> lists the value and the
  text of its options, \<open>targetLang_selectedIndex\<close> is \<open>None\<close> for the index -1.
  \<open>outputText_innerHTML\<close> is the markup last assigned to the result area, and
  \<open>outputText_alerts\<close> the number of elements of class \<open>alert\<close> now inside it.
  \<open>alerts\<close> are the notifications attached to the document, in document order;
  they are appended to the body and so lie after the result area. The page's own
  markup is not part of the repository: it is taken to hold no element of class
  \<open>alert\<close> outside the result area. \<open>fetches\<close> and
  \<open>clipboard\<close> record every call of \<open>fetch\<close> and of \<open>clipboard.writeText\<close>,
  oldest first; \<open>pending\<close> and \<open>clipboard_pending\<close> are the promises not yet settled.
\<close>

subsection \<open>Browser operations\<close>

definition targetLang_value :: "state \<Rightarrow> jsstr" where
  "targetLang_value s =
     (case targetLang_selectedIndex s of
        None \<Rightarrow> []
      | Some i \<Rightarrow> (if i < length (targetLang_options s) then fst (targetLang_options s ! i) else []))"

text \<open>Assigning \<open>targetLang.value\<close> selects the first option of that value, or none.\<close>

fun index_of :: "jsstr \<Rightarrow> (jsstr \<times> jsstr) list \<Rightarrow> nat option" where
  "index_of v [] = None"
| "index_of v (opt # opts) =
     (if fst opt = v then Some 0 else map_option Suc (index_of v opts))"

definition set_targetLang_value :: "state \<Rightarrow> jsstr \<Rightarrow> state" where
  "set_targetLang_value s v = s\<lparr>targetLang_selectedIndex := index_of v (targetLang_options s)\<rparr>"

definition setTimeout :: "state \<Rightarrow> callback \<Rightarrow> nat \<Rightarrow> state" where
  "setTimeout s f delay =
     s\<lparr>timers := timers s @ [\<lparr>tid = next_tid s, due = clock s + delay, cb = f\<rparr>],
       next_tid := Suc (next_tid s)\<rparr>"

definition clearTimeout :: "state \<Rightarrow> nat option \<Rightarrow> state" where
  "clearTimeout s h =
     (case h of
        None \<Rightarrow> s
      | Some i \<Rightarrow> s\<lparr>timers := filter (\<lambda>t. tid t \<noteq> i) (timers s)\<rparr>)"

definition fetch :: "state \<Rightarrow> handler \<Rightarrow> request \<Rightarrow> state" where
  "fetch s h r =
     s\<lparr>fetches := fetches s @ [r],
       pending := pending s @ [(next_rid s, h)],
       next_rid := Suc (next_rid s)\<rparr>"

definition clipboard_writeText :: "state \<Rightarrow> jsstr \<Rightarrow> state" where
  "clipboard_writeText s t =
     s\<lparr>clipboard := clipboard s @ [t],
       clipboard_pending := clipboard_pending s @ [next_cid s],
       next_cid := Suc (next_cid s)\<rparr>"

definition attached :: "state \<Rightarrow> nat \<Rightarrow> bool" where
  "attached s a \<longleftrightarrow> a \<in> set (map aid (alerts s))"

definition alert_remove :: "state \<Rightarrow> nat \<Rightarrow> state" where
  "alert_remove s a = s\<lparr>alerts := filter (\<lambda>x. aid x \<noteq> a) (alerts s)\<rparr>"

definition alert_set_animation :: "state \<Rightarrow> nat \<Rightarrow> jsstr \<Rightarrow> state" where
  "alert_set_animation s a v =
     s\<lparr>alerts := map (\<lambda>x. if aid x = a then x\<lparr>animation := v\<rparr> else x) (alerts s)\<rparr>"

subsection \<open>Alert system\<close>

text \<open>
  \<open>document.querySelector('.alert')\<close> is the first element of class \<open>alert\<close> of the
  whole document: one inside the result area when there is any, else the first
  notification. Markup in a message is parsed inside the new notification, after the
  notification's own element, and is removed with it.
\<close>

definition showAlert :: "state \<Rightarrow> jsstr \<Rightarrow> jsstr \<Rightarrow> state" where
  "showAlert s msg type =
     (let s1 = (if 0 < outputText_alerts s
                then s\<lparr>outputText_alerts := outputText_alerts s - 1\<rparr>
                else (case alerts s of
                        [] \<Rightarrow> s
                      | existing # others \<Rightarrow> s\<lparr>alerts := others\<rparr>));
          a = \<lparr>aid = next_aid s1, className = lit ''alert alert-'' @ type,
               message = msg, animation = []\<rparr>;
          s2 = s1\<lparr>alerts := alerts s1 @ [a], next_aid := Suc (next_aid s1)\<rparr>
      in setTimeout s2 (CbAlertAutoRemove (aid a)) 5000)"

text \<open>The click listener of the alert's close button.\<close>

definition alert_close_click :: "state \<Rightarrow> nat \<Rightarrow> state" where
  "alert_close_click s a =
     setTimeout (alert_set_animation s a (lit ''slideOut 0.3s ease'')) (CbAlertRemove a) 300"

text \<open>The auto-remove callback of \<open>showAlert\<close>.\<close>

definition alert_auto_remove :: "state \<Rightarrow> nat \<Rightarrow> state" where
  "alert_auto_remove s a =
     (if attached s a
      then setTimeout (alert_set_animation s a (lit ''slideOut 0.3s ease'')) (CbAlertRemove a) 300
      else s)"

subsection \<open>Target language display\<close>

text \<open>
  \<open>updateTargetLanguage\<close> reads \<open>targetLang.options[targetLang.selectedIndex]\<close>;
  with no option selected that is \<open>undefined\<close> and reading its \<open>text\<close> throws
  (\<open>None\<close>), before anything is written.
\<close>

definition updateTargetLanguage :: "state \<Rightarrow> state option" where
  "updateTargetLanguage s =
     (case targetLang_selectedIndex s of
        None \<Rightarrow> None
      | Some i \<Rightarrow>
          (if i < length (targetLang_options s)
           then Some (s\<lparr>targetLangName_textContent :=
                          trim (takeWhile (\<lambda>c. c \<noteq> 0x28) (snd (targetLang_options s ! i))),
                        targetLangCode_textContent := targetLang_value s\<rparr>)
           else None))"

subsection \<open>Detect language\<close>

definition detectLanguage :: "state \<Rightarrow> state" where
  "detectLanguage s =
     (let text = trim (inputText_value s) in
      if length text < 3
      then s\<lparr>detectedLang_textContent := lit ''Text too short'',
             detectedLangCode_textContent := lit ''--''\<rparr>
      else fetch s HDetectLanguage \<lparr>url = lit ''/detect'', body = [(lit ''text'', text)]\<rparr>)"

text \<open>The rest of the \<open>try\<close> block once the response is there, and the \<open>catch\<close> block.\<close>

definition detectLanguage_resume :: "state \<Rightarrow> outcome \<Rightarrow> state" where
  "detectLanguage_resume s r =
     (case r of
        Rejected m \<Rightarrow> showAlert s (lit ''Language detection failed'') (lit ''error'')
      | Resolved d \<Rightarrow>
          (if success d
           then showAlert
                  (s\<lparr>detectedLang_textContent := language d,
                     detectedLangCode_textContent := code d\<rparr>)
                  (lit ''Detected: '' @ language d) (lit ''success'')
           else s))"

subsection \<open>Translate text\<close>

definition translateBtn_busy :: jsstr where
  \<open>translateBtn_busy = lit ''<i class="fas fa-spinner fa-spin"></i> Translating...''\<close>

definition translateBtn_idle :: jsstr where
  \<open>translateBtn_idle = lit ''<i class="fas fa-exchange-alt"></i> Translate Now''\<close>

definition translate :: "state \<Rightarrow> state" where
  "translate s =
     (let text = trim (inputText_value s) in
      if text = []
      then showAlert s (lit ''Please enter text to translate'') (lit ''error'')
      else if length text > 5000
      then showAlert s (lit ''Text is too long (max 5000 characters)'') (lit ''error'')
      else fetch (s\<lparr>translateBtn_disabled := True, translateBtn_innerHTML := translateBtn_busy\<rparr>)
             HTranslate
             \<lparr>url = lit ''/translate'',
              body = [(lit ''text'', text), (lit ''target_lang'', targetLang_value s)]\<rparr>)"

text \<open>
  \<open>data.error || fallback\<close>: the fallback when the field is absent or the empty string.
\<close>

definition error_or :: "data \<Rightarrow> jsstr \<Rightarrow> jsstr" where
  "error_or d fallback =
     (case error d of None \<Rightarrow> fallback | Some e \<Rightarrow> (if e = [] then fallback else e))"

text \<open>
  The \<open>try\<close> block from the response on: \<open>Inl m\<close> is an error of message \<open>m\<close>
  thrown (or a rejection awaited), which happens before the block writes anything.
\<close>

definition translate_try :: "state \<Rightarrow> outcome \<Rightarrow> jsstr + state" where
  "translate_try s r =
     (case r of
        Rejected m \<Rightarrow> Inl m
      | Resolved d \<Rightarrow>
          (if success d
           then Inr (showAlert
                  (s\<lparr>currentTranslation := translated_text d,
                     outputText_innerHTML :=
                       TranslationResult (source_lang d) (target_lang d) (translated_text d),
                     outputText_alerts := result_alerts d,
                     detectedLang_textContent := source_lang d,
                     detectedLangCode_textContent := source_code d,
                     targetLangName_textContent := target_lang d,
                     targetLangCode_textContent := target_code d,
                     speakBtn_disabled := False,
                     copyBtn_disabled := False,
                     downloadBtn_disabled := False,
                     audioPlayer_display := lit ''none''\<rparr>)
                  (lit ''Translation successful!'') (lit ''success''))
           else Inl (error_or d (lit ''Translation failed''))))"

definition translate_catch :: "state \<Rightarrow> jsstr \<Rightarrow> state" where
  "translate_catch s m = showAlert s (lit ''Translation failed: '' @ m) (lit ''error'')"

definition translate_finally :: "state \<Rightarrow> state" where
  "translate_finally s =
     s\<lparr>translateBtn_disabled := False, translateBtn_innerHTML := translateBtn_idle\<rparr>"

definition translate_resume :: "state \<Rightarrow> outcome \<Rightarrow> state" where
  "translate_resume s r =
     translate_finally
       (case translate_try s r of
          Inl m \<Rightarrow> translate_catch s m
        | Inr s' \<Rightarrow> s')"

subsection \<open>Generate speech\<close>

definition speakBtn_busy :: jsstr where
  \<open>speakBtn_busy = lit ''<i class="fas fa-spinner fa-spin"></i> Generating...''\<close>

definition speakBtn_idle :: jsstr where
  \<open>speakBtn_idle = lit ''<i class="fas fa-volume-up"></i> Listen''\<close>

definition generateSpeech :: "state \<Rightarrow> state" where
  "generateSpeech s =
     (if currentTranslation s = []
      then showAlert s (lit ''No translation available'') (lit ''error'')
      else fetch (s\<lparr>speakBtn_disabled := True, speakBtn_innerHTML := speakBtn_busy\<rparr>)
             HGenerateSpeech
             \<lparr>url = lit ''/tts'',
              body = [(lit ''text'', currentTranslation s), (lit ''lang'', targetLang_value s)]\<rparr>)"

definition generateSpeech_try :: "state \<Rightarrow> outcome \<Rightarrow> jsstr + state" where
  "generateSpeech_try s r =
     (case r of
        Rejected m \<Rightarrow> Inl m
      | Resolved d \<Rightarrow>
          (if success d
           then Inr (showAlert
                  (setTimeout
                     (s\<lparr>currentAudioUrl := audio_url d,
                        audioElement_src := audio_url d,
                        downloadAudio_href := audio_url d,
                        audioPlayer_display := lit ''flex''\<rparr>)
                     CbAutoplay 100)
                  (lit ''Speech generated successfully'') (lit ''success''))
           else Inl (error_or d (lit ''Speech generation failed''))))"

definition generateSpeech_catch :: "state \<Rightarrow> jsstr \<Rightarrow> state" where
  "generateSpeech_catch s m = showAlert s (lit ''Speech generation failed: '' @ m) (lit ''error'')"

definition generateSpeech_finally :: "state \<Rightarrow> state" where
  "generateSpeech_finally s =
     s\<lparr>speakBtn_disabled := False, speakBtn_innerHTML := speakBtn_idle\<rparr>"

definition generateSpeech_resume :: "state \<Rightarrow> outcome \<Rightarrow> state" where
  "generateSpeech_resume s r =
     generateSpeech_finally
       (case generateSpeech_try s r of
          Inl m \<Rightarrow> generateSpeech_catch s m
        | Inr s' \<Rightarrow> s')"

subsection \<open>Copy translation\<close>

definition copyBtn_copied :: jsstr where
  \<open>copyBtn_copied = lit ''<i class="fas fa-check"></i> Copied!''\<close>

definition copyBtn_idle :: jsstr where
  \<open>copyBtn_idle = lit ''<i class="fas fa-copy"></i> Copy''\<close>

definition copyTranslation :: "state \<Rightarrow> state" where
  "copyTranslation s =
     (if currentTranslation s = []
      then showAlert s (lit ''No translation to copy'') (lit ''error'')
      else clipboard_writeText s (currentTranslation s))"

text \<open>The \<open>then\<close> and \<open>catch\<close> callbacks of the clipboard promise.\<close>

definition copyTranslation_resume :: "state \<Rightarrow> bool \<Rightarrow> state" where
  "copyTranslation_resume s ok =
     (if ok
      then setTimeout
             (showAlert (s\<lparr>copyBtn_innerHTML := copyBtn_copied\<rparr>)
                (lit ''Translation copied to clipboard'') (lit ''success''))
             CbCopyRevert 2000
      else showAlert s (lit ''Failed to copy text'') (lit ''error''))"

subsection \<open>Clear all\<close>

definition clearAll :: "state \<Rightarrow> state" where
  "clearAll s =
     showAlert
       (s\<lparr>inputText_value := [],
          outputText_innerHTML := Placeholder,
          outputText_alerts := 0,
          detectedLang_textContent := lit ''Auto-Detect'',
          detectedLangCode_textContent := lit ''--'',
          currentTranslation := [],
          speakBtn_disabled := True,
          copyBtn_disabled := True,
          audioPlayer_display := lit ''none'',
          charCounter_textContent := lit ''0''\<rparr>)
       (lit ''All fields cleared'') (lit ''info'')"

subsection \<open>Listeners registered by \<open>init\<close>\<close>

text \<open>The first \<open>input\<close> listener: the character counter.\<close>

definition update_counter :: "state \<Rightarrow> state" where
  "update_counter s =
     (let count = length (inputText_value s) in
      s\<lparr>charCounter_textContent := number_toString count,
        charCounter_color := (if count > 5000 then lit ''#ef476f'' else lit ''#06d6a0'')\<rparr>)"

text \<open>The second \<open>input\<close> listener: auto-detect while typing.\<close>

definition auto_detect :: "state \<Rightarrow> state" where
  "auto_detect s =
     (let s1 = clearTimeout s (detectTimeout s) in
      if length (trim (inputText_value s1)) \<ge> 3
      then (setTimeout s1 CbDetectLanguage 1500)\<lparr>detectTimeout := Some (next_tid s1)\<rparr>
      else s1)"

text \<open>Dispatching \<open>input\<close> on the text area runs both listeners in the order registered.\<close>

definition dispatch_input :: "state \<Rightarrow> state" where
  "dispatch_input s = auto_detect (update_counter s)"

text \<open>A thrown error ends the listener; what it wrote before stays (\<open>s\<close> is the state then).\<close>

definition or_thrown :: "state \<Rightarrow> state option \<Rightarrow> state" where
  "or_thrown s r = (case r of None \<Rightarrow> s | Some s' \<Rightarrow> s')"

definition quick_lang_click :: "state \<Rightarrow> jsstr \<Rightarrow> state" where
  "quick_lang_click s lang =
     (let s1 = set_targetLang_value s lang in or_thrown s1 (updateTargetLanguage s1))"

definition lang_card_click :: "state \<Rightarrow> jsstr \<Rightarrow> jsstr \<Rightarrow> state" where
  "lang_card_click s lang name =
     (let s1 = set_targetLang_value s lang in
      case updateTargetLanguage s1 of
        None \<Rightarrow> s1
      | Some s2 \<Rightarrow> showAlert s2 (lit ''Selected '' @ name) (lit ''info''))"

definition quick_text_click :: "state \<Rightarrow> jsstr \<Rightarrow> state" where
  "quick_text_click s text =
     showAlert (dispatch_input (s\<lparr>inputText_value := normalize_newlines text\<rparr>))
       (lit ''Example text loaded'') (lit ''info'')"

definition init :: "state \<Rightarrow> state" where
  "init s = (let s1 = s\<lparr>detectTimeout := None\<rparr> in or_thrown s1 (updateTargetLanguage s1))"

subsection \<open>Events\<close>

text \<open>
  What can happen to the page once \<open>init\<close> has run: user actions, a timer firing, a
  request or a clipboard write settling, time passing. A disabled button receives no
  click. \<open>Input v\<close> is an edit of the text area after which its value reads \<open>v\<close>;
  \<open>ChangeTargetLang i\<close> is the user picking option \<open>i\<close> of the dropdown;
  \<open>Timeout i\<close> runs the callback of timer \<open>i\<close>, which the browser does only once
  the timer is due; \<open>ClickDownload now\<close> carries the value of \<open>Date.now()\<close>.
\<close>

datatype event =
    Input jsstr
  | KeydownCtrlEnter
  | ClickQuickLang jsstr
  | ClickLangCard jsstr jsstr
  | ClickQuickText jsstr
  | ClickTranslate
  | ClickDetect
  | ClickSpeak
  | ClickCopy
  | ClickClear
  | ChangeTargetLang nat
  | ClickAlertClose nat
  | ClickDownload nat
  | AudioPlay
  | AudioEnded
  | Timeout nat
  | Settled nat outcome
  | ClipboardSettled nat bool
  | Elapse nat

definition run_callback :: "state \<Rightarrow> callback \<Rightarrow> state" where
  "run_callback s f =
     (case f of
        CbDetectLanguage \<Rightarrow> detectLanguage s
      | CbAlertAutoRemove a \<Rightarrow> alert_auto_remove s a
      | CbAlertRemove a \<Rightarrow> alert_remove s a
      | CbCopyRevert \<Rightarrow> s\<lparr>copyBtn_innerHTML := copyBtn_idle\<rparr>
      | CbAutoplay \<Rightarrow> s)"

definition fire :: "state \<Rightarrow> nat \<Rightarrow> state" where
  "fire s i =
     (case find (\<lambda>t. tid t = i) (timers s) of
        None \<Rightarrow> s
      | Some t \<Rightarrow>
          (if due t \<le> clock s
           then run_callback (s\<lparr>timers := filter (\<lambda>t. tid t \<noteq> i) (timers s)\<rparr>) (cb t)
           else s))"

definition resume :: "state \<Rightarrow> handler \<Rightarrow> outcome \<Rightarrow> state" where
  "resume s h r =
     (case h of
        HDetectLanguage \<Rightarrow> detectLanguage_resume s r
      | HTranslate \<Rightarrow> translate_resume s r
      | HGenerateSpeech \<Rightarrow> generateSpeech_resume s r)"

definition settle :: "state \<Rightarrow> nat \<Rightarrow> outcome \<Rightarrow> state" where
  "settle s i r =
     (case map_of (pending s) i of
        None \<Rightarrow> s
      | Some h \<Rightarrow> resume (s\<lparr>pending := filter (\<lambda>p. fst p \<noteq> i) (pending s)\<rparr>) h r)"

definition clipboard_settle :: "state \<Rightarrow> nat \<Rightarrow> bool \<Rightarrow> state" where
  "clipboard_settle s i ok =
     (if i \<in> set (clipboard_pending s)
      then copyTranslation_resume (s\<lparr>clipboard_pending := removeAll i (clipboard_pending s)\<rparr>) ok
      else s)"

definition download_click :: "state \<Rightarrow> nat \<Rightarrow> state" where
  "download_click s now =
     s\<lparr>downloadAudio_download :=
         lit ''translation_'' @ targetLang_value s @ lit ''_'' @ number_toString now @ lit ''.mp3''\<rparr>"

fun step :: "state \<Rightarrow> event \<Rightarrow> state" where
  "step s (Input v) = dispatch_input (s\<lparr>inputText_value := v\<rparr>)"
| "step s KeydownCtrlEnter = translate s"
| "step s (ClickQuickLang lang) = quick_lang_click s lang"
| "step s (ClickLangCard lang name) = lang_card_click s lang name"
| "step s (ClickQuickText text) = quick_text_click s text"
| "step s ClickTranslate = (if translateBtn_disabled s then s else translate s)"
| "step s ClickDetect = detectLanguage s"
| "step s ClickSpeak = (if speakBtn_disabled s then s else generateSpeech s)"
| "step s ClickCopy = (if copyBtn_disabled s then s else copyTranslation s)"
| "step s ClickClear = clearAll s"
| "step s (ChangeTargetLang i) =
     (if i < length (targetLang_options s)
      then (let s1 = s\<lparr>targetLang_selectedIndex := Some i\<rparr> in or_thrown s1 (updateTargetLanguage s1))
      else s)"
| "step s (ClickAlertClose a) = (if attached s a then alert_close_click s a else s)"
| "step s (ClickDownload now) = download_click s now"
| "step s AudioPlay = s\<lparr>audioStatus_textContent := lit ''Playing...''\<rparr>"
| "step s AudioEnded = s\<lparr>audioStatus_textContent := lit ''Playback finished''\<rparr>"
| "step s (Timeout i) = fire s i"
| "step s (Settled i r) = settle s i r"
| "step s (ClipboardSettled i ok) = clipboard_settle s i ok"
| "step s (Elapse d) = s\<lparr>clock := clock s + d\<rparr>"

definition run :: "state \<Rightarrow> event list \<Rightarrow> state" where
  "run s evs = foldl step s evs"

subsection \<open>Observations\<close>

text \<open>The pending timers that will call \<open>detectLanguage\<close>.\<close>

definition detect_timers :: "state \<Rightarrow> timer list" where
  "detect_timers s = filter (\<lambda>t. cb t = CbDetectLanguage) (timers s)"

text \<open>The notification on display is of kind \<open>kind\<close>.\<close>

definition notified :: "state \<Rightarrow> jsstr \<Rightarrow> bool" where
  "notified s kind \<longleftrightarrow>
     (case alerts s of [] \<Rightarrow> False | a # rest \<Rightarrow> className (last (a # rest)) = lit ''alert alert-'' @ kind)"

text \<open>
  A page as it may be after loading, for evaluating the handlers: a dropdown of three
  languages with the first selected, nothing translated, no timer, request or
  notification.
\<close>

definition example_page :: state where
  "example_page =
     \<lparr>inputText_value = [],
      outputText_innerHTML = Placeholder,
      outputText_alerts = 0,
      translateBtn_disabled = False,
      translateBtn_innerHTML = translateBtn_idle,
      speakBtn_disabled = True,
      speakBtn_innerHTML = speakBtn_idle,
      copyBtn_disabled = True,
      copyBtn_innerHTML = copyBtn_idle,
      downloadBtn_disabled = True,
      targetLang_options =
        [(lit ''es'', lit ''Spanish (Espanol)''), (lit ''fr'', lit ''French (Francais)''),
         (lit ''de'', lit ''German (Deutsch)'')],
      targetLang_selectedIndex = Some 0,
      detectedLang_textContent = lit ''Auto-Detect'',
      detectedLangCode_textContent = lit ''--'',
      targetLangName_textContent = lit ''Spanish'',
      targetLangCode_textContent = lit ''es'',
      audioPlayer_display = lit ''none'',
      audioElement_src = [],
      downloadAudio_href = [],
      downloadAudio_download = [],
      audioStatus_textContent = [],
      charCounter_textContent = lit ''0'',
      charCounter_color = [],
      currentTranslation = [],
      currentAudioUrl = [],
      detectTimeout = None,
      alerts = [],
      next_aid = 0,
      timers = [],
      next_tid = 1,
      clock = 0,
      fetches = [],
      pending = [],
      next_rid = 0,
      clipboard = [],
      clipboard_pending = [],
      next_cid = 0\<rparr>"

text \<open>
  The page with 5000 letters \<open>a\<close> followed by one space in the text area: a value of
  5001 code units.
\<close>

definition long_input_page :: state where
  "long_input_page = example_page\<lparr>inputText_value := replicate 5000 0x61 @ [0x20]\<rparr>"

text \<open>
  The body \<open>{"success": false, "error": "Detection failed"}\<close>; the fields it lacks are
  not read on this path.
\<close>

definition failure_response :: data where
  "failure_response =
     \<lparr>success = False, language = [], code = [], translated_text = [], source_lang = [],
      source_code = [], target_lang = [], target_code = [], audio_url = [],
      error = Some (lit ''Detection failed''), result_alerts = 0\<rparr>"

text \<open>The page with \<open>Hello\<close> typed, and a successful answer of the three endpoints.\<close>

definition hello_page :: state where
  "hello_page = example_page\<lparr>inputText_value := lit ''Hello''\<rparr>"

definition bonjour_response :: data where
  "bonjour_response =
     \<lparr>success = True, language = [], code = [], translated_text = lit ''Bonjour'',
      source_lang = lit ''English'', source_code = lit ''en'', target_lang = lit ''French'',
      target_code = lit ''fr'', audio_url = lit ''/static/audio/a.mp3'', error = None,
      result_alerts = 0\<rparr>"

text \<open>
  A successful translation answer whose translated text is the markup
  \<open><i class=alert></i>\<close>, which the browser parses into one element of class
  \<open>alert\<close>.
\<close>

definition injected_response :: data where
  "injected_response =
     \<lparr>success = True, language = [], code = [], translated_text = lit ''<i class=alert></i>'',
      source_lang = lit ''English'', source_code = lit ''en'', target_lang = lit ''French'',
      target_code = lit ''fr'', audio_url = [], error = None, result_alerts = 1\<rparr>"

subsection \<open>Invariants of the timers\<close>

text \<open>
  What the browser guarantees of the pending timers (ids are unique and were handed
  out before \<open>next_tid\<close>), and what \<open>init\<close>'s listener maintains: a pending timer
  that will call \<open>detectLanguage\<close> is the one \<open>detectTimeout\<close> holds. A page with no
  pending timer satisfies it.
\<close>

definition timers_ok :: "state \<Rightarrow> bool" where
  "timers_ok s \<longleftrightarrow>
     distinct (map tid (timers s)) \<and>
     (\<forall>t \<in> set (timers s). tid t < next_tid s) \<and>
     (\<forall>t \<in> set (timers s). cb t = CbDetectLanguage \<longrightarrow> detectTimeout s = Some (tid t))"

text \<open>
  The time that has passed since the text area last dispatched \<open>input\<close>, read off a
  sequence of events (oldest first); \<open>None\<close> when it never did.
\<close>

definition quiet_step :: "nat option \<Rightarrow> event \<Rightarrow> nat option" where
  "quiet_step q e =
     (case e of
        Input v \<Rightarrow> Some 0
      | ClickQuickText v \<Rightarrow> Some 0
      | Elapse d \<Rightarrow> map_option (\<lambda>n. n + d) q
      | _ \<Rightarrow> q)"

definition quiet :: "event list \<Rightarrow> nat option" where
  "quiet evs = foldl quiet_step None evs"

text \<open>Every pending detection timer is due 1500 ms after the last \<open>input\<close>, \<open>q\<close> ago.\<close>

definition due_ok :: "state \<Rightarrow> nat option \<Rightarrow> bool" where
  "due_ok s q \<longleftrightarrow>
     (\<forall>t \<in> set (timers s). cb t = CbDetectLanguage \<longrightarrow>
        (case q of None \<Rightarrow> False | Some n \<Rightarrow> due t + n = clock s + 1500))"

text \<open>
  \<open>other_timers_added s s'\<close>: from \<open>s\<close> to \<open>s'\<close> the clock and \<open>detectTimeout\<close> stayed,
  and the pending timers grew at the end by timers of consecutive new ids, none of
  which calls \<open>detectLanguage\<close>.
\<close>

fun fresh :: "timer list \<Rightarrow> nat \<Rightarrow> nat \<Rightarrow> bool" where
  "fresh [] n n' \<longleftrightarrow> n = n'"
| "fresh (t # ts) n n' \<longleftrightarrow> tid t = n \<and> cb t \<noteq> CbDetectLanguage \<and> fresh ts (Suc n) n'"

definition other_timers_added :: "state \<Rightarrow> state \<Rightarrow> bool" where
  "other_timers_added s s' \<longleftrightarrow>
     detectTimeout s' = detectTimeout s \<and> clock s' = clock s \<and>
     take (length (timers s)) (timers s') = timers s \<and>
     fresh (drop (length (timers s)) (timers s')) (next_tid s) (next_tid s')"

text \<open>
  Sequences made of edits of the text area, time passing and timers firing only, and
  the text the last edit of a sequence left.
\<close>

definition typing_only :: "event list \<Rightarrow> bool" where
  "typing_only evs =
     list_all (\<lambda>e. case e of Input v \<Rightarrow> True | Elapse d \<Rightarrow> True | Timeout i \<Rightarrow> True | _ \<Rightarrow> False) evs"

definition typed :: "event list \<Rightarrow> jsstr option" where
  "typed evs = foldl (\<lambda>a e. case e of Input v \<Rightarrow> Some v | _ \<Rightarrow> a) None evs"

section \<open>Properties\<close>

subsection \<open>Strings\<close>

lemma trim_nil [simp]: "trim [] = []"
  by (simp add: trim_def)

subsection \<open>Detection of short text\<close>

text \<open>
  C6. Whenever the trimmed input text is shorter than 3 code units when
  \<open>detectLanguage\<close> runs, no request is sent (the log of \<open>fetch\<close> calls and the
  requests in flight are as before) and the detection display reads
  \<open>Text too short\<close> with the code \<open>--\<close>; nothing else of the page changes.
\<close>

theorem detectLanguage_too_short:
  "length (trim (inputText_value s)) < 3 \<Longrightarrow>
     detectLanguage s =
       s\<lparr>detectedLang_textContent := lit ''Text too short'',
         detectedLangCode_textContent := lit ''--''\<rparr> \<and>
     fetches (detectLanguage s) = fetches s \<and>
     pending (detectLanguage s) = pending s \<and>
     detectedLang_textContent (detectLanguage s) = lit ''Text too short'' \<and>
     detectedLangCode_textContent (detectLanguage s) = lit ''--''"
  by (simp add: detectLanguage_def Let_def)

theorem detectLanguage_too_short_witness:
  "length (trim (inputText_value (example_page\<lparr>inputText_value := lit '' hi ''\<rparr>))) < 3 \<and>
   fetches (detectLanguage (example_page\<lparr>inputText_value := lit '' hi ''\<rparr>)) = [] \<and>
   detectedLang_textContent (detectLanguage (example_page\<lparr>inputText_value := lit '' hi ''\<rparr>))
     = lit ''Text too short''"
  using detectLanguage_too_short [of "example_page\<lparr>inputText_value := lit '' hi ''\<rparr>"]
  by (simp add: example_page_def trim_def lit_def isWhiteSpace_def)

subsection \<open>What \<open>showAlert\<close> changes\<close>

lemma showAlert_alerts:
  "alerts (showAlert s m k) =
     (if 0 < outputText_alerts s then alerts s else tl (alerts s)) @
       [\<lparr>aid = next_aid s, className = lit ''alert alert-'' @ k,
         message = m, animation = []\<rparr>]"
  by (simp add: showAlert_def setTimeout_def Let_def split: list.splits)

lemma showAlert_timers:
  "timers (showAlert s m k) =
     timers s @ [\<lparr>tid = next_tid s, due = clock s + 5000, cb = CbAlertAutoRemove (next_aid s)\<rparr>]"
  by (simp add: showAlert_def setTimeout_def Let_def split: list.splits)

lemma showAlert_counters:
  "next_aid (showAlert s m k) = Suc (next_aid s)"
  "next_tid (showAlert s m k) = Suc (next_tid s)"
  by (simp_all add: showAlert_def setTimeout_def Let_def split: list.splits)

lemma showAlert_keeps:
  "inputText_value (showAlert s m k) = inputText_value s"
  "outputText_innerHTML (showAlert s m k) = outputText_innerHTML s"
  "translateBtn_disabled (showAlert s m k) = translateBtn_disabled s"
  "translateBtn_innerHTML (showAlert s m k) = translateBtn_innerHTML s"
  "speakBtn_disabled (showAlert s m k) = speakBtn_disabled s"
  "speakBtn_innerHTML (showAlert s m k) = speakBtn_innerHTML s"
  "copyBtn_disabled (showAlert s m k) = copyBtn_disabled s"
  "copyBtn_innerHTML (showAlert s m k) = copyBtn_innerHTML s"
  "downloadBtn_disabled (showAlert s m k) = downloadBtn_disabled s"
  "targetLang_options (showAlert s m k) = targetLang_options s"
  "targetLang_selectedIndex (showAlert s m k) = targetLang_selectedIndex s"
  "detectedLang_textContent (showAlert s m k) = detectedLang_textContent s"
  "detectedLangCode_textContent (showAlert s m k) = detectedLangCode_textContent s"
  "targetLangName_textContent (showAlert s m k) = targetLangName_textContent s"
  "targetLangCode_textContent (showAlert s m k) = targetLangCode_textContent s"
  "audioPlayer_display (showAlert s m k) = audioPlayer_display s"
  "audioElement_src (showAlert s m k) = audioElement_src s"
  "downloadAudio_href (showAlert s m k) = downloadAudio_href s"
  "downloadAudio_download (showAlert s m k) = downloadAudio_download s"
  "audioStatus_textContent (showAlert s m k) = audioStatus_textContent s"
  "charCounter_textContent (showAlert s m k) = charCounter_textContent s"
  "charCounter_color (showAlert s m k) = charCounter_color s"
  "currentTranslation (showAlert s m k) = currentTranslation s"
  "currentAudioUrl (showAlert s m k) = currentAudioUrl s"
  "detectTimeout (showAlert s m k) = detectTimeout s"
  "clock (showAlert s m k) = clock s"
  "fetches (showAlert s m k) = fetches s"
  "pending (showAlert s m k) = pending s"
  "next_rid (showAlert s m k) = next_rid s"
  "clipboard (showAlert s m k) = clipboard s"
  "clipboard_pending (showAlert s m k) = clipboard_pending s"
  "next_cid (showAlert s m k) = next_cid s"
  by (simp_all add: showAlert_def setTimeout_def Let_def split: list.splits)

lemma showAlert_outputText_alerts:
  "outputText_alerts (showAlert s m k) = outputText_alerts s - 1"
  by (simp add: showAlert_def setTimeout_def Let_def split: list.splits)

lemma notified_snoc:
  "alerts s = xs @ [a] \<Longrightarrow> className a = lit ''alert alert-'' @ k \<Longrightarrow> notified s k"
  by (cases xs) (simp_all add: notified_def)

lemma notified_showAlert: "notified (showAlert s m k) k"
  by (rule notified_snoc [OF showAlert_alerts]) simp

subsection \<open>Speak and copy without a translation\<close>

text \<open>
  C7. Whenever no translation is stored (\<open>currentTranslation\<close> is the empty string),
  the speak action and the copy action each show an error notification and stop: the
  speak action sends no request and the copy action writes nothing to the clipboard.
\<close>

theorem no_translation_blocks_speak_and_copy:
  "currentTranslation s = [] \<Longrightarrow>
     generateSpeech s = showAlert s (lit ''No translation available'') (lit ''error'') \<and>
     notified (generateSpeech s) (lit ''error'') \<and>
     fetches (generateSpeech s) = fetches s \<and>
     pending (generateSpeech s) = pending s \<and>
     clipboard (generateSpeech s) = clipboard s \<and>
     copyTranslation s = showAlert s (lit ''No translation to copy'') (lit ''error'') \<and>
     notified (copyTranslation s) (lit ''error'') \<and>
     clipboard (copyTranslation s) = clipboard s \<and>
     clipboard_pending (copyTranslation s) = clipboard_pending s \<and>
     fetches (copyTranslation s) = fetches s \<and>
     pending (copyTranslation s) = pending s"
  by (simp add: generateSpeech_def copyTranslation_def showAlert_keeps notified_showAlert)

theorem no_translation_blocks_speak_and_copy_witness:
  "currentTranslation example_page = [] \<and>
   notified (generateSpeech example_page) (lit ''error'') \<and>
   fetches (generateSpeech example_page) = [] \<and>
   notified (copyTranslation example_page) (lit ''error'') \<and>
   clipboard (copyTranslation example_page) = []"
proof -
  have h: "currentTranslation example_page = []"
    by (simp add: example_page_def)
  have e: "fetches example_page = []" "clipboard example_page = []"
    by (simp_all add: example_page_def)
  show ?thesis
    using no_translation_blocks_speak_and_copy [OF h] h e
    by (simp add: showAlert_keeps notified_showAlert)
qed

subsection \<open>Clear all\<close>

text \<open>
  C8. From any state, \<open>clearAll\<close> empties the input text, puts the placeholder in
  the result area, resets the detection display and the character counter, clears the
  stored translation, leaves the speak and copy buttons disabled and the audio player
  hidden, and shows an info notification. It has no precondition and no failing
  branch, and it is what a click on the clear button runs.
\<close>

theorem clearAll_resets:
  "inputText_value (clearAll s) = [] \<and>
   outputText_innerHTML (clearAll s) = Placeholder \<and>
   detectedLang_textContent (clearAll s) = lit ''Auto-Detect'' \<and>
   detectedLangCode_textContent (clearAll s) = lit ''--'' \<and>
   charCounter_textContent (clearAll s) = lit ''0'' \<and>
   currentTranslation (clearAll s) = [] \<and>
   speakBtn_disabled (clearAll s) \<and>
   copyBtn_disabled (clearAll s) \<and>
   audioPlayer_display (clearAll s) = lit ''none'' \<and>
   notified (clearAll s) (lit ''info'') \<and>
   message (last (alerts (clearAll s))) = lit ''All fields cleared'' \<and>
   fetches (clearAll s) = fetches s \<and>
   step s ClickClear = clearAll s"
  by (simp add: clearAll_def showAlert_keeps notified_showAlert showAlert_alerts)

subsection \<open>Translation of over-long text\<close>

lemma trim_replicate: "\<not> isWhiteSpace a \<Longrightarrow> trim (replicate n a) = replicate n a"
  by (simp add: trim_def)

lemma trim_replicate_space:
  "\<not> isWhiteSpace a \<Longrightarrow> 0 < n \<Longrightarrow> trim (replicate n a @ [0x20]) = replicate n a"
  by (simp add: trim_def isWhiteSpace_def)

text \<open>
  C1, as stated, fails: the limit of 5000 is checked on the trimmed text. With 5000
  letters and a trailing space in the text area (5001 code units), \<open>translate\<close> shows
  no notification, sends the request to \<open>/translate\<close> and disables the button.
\<close>

theorem translate_long_input_counterexample:
  "length (inputText_value long_input_page) = 5001 \<and>
   fetches long_input_page = [] \<and>
   fetches (translate long_input_page) =
     [\<lparr>url = lit ''/translate'',
       body = [(lit ''text'', replicate 5000 0x61), (lit ''target_lang'', lit ''es'')]\<rparr>] \<and>
   alerts (translate long_input_page) = [] \<and>
   translateBtn_disabled (translate long_input_page)"
proof -
  have a: "\<not> isWhiteSpace 0x61"
    by (simp add: isWhiteSpace_def)
  have t: "trim (inputText_value long_input_page) = replicate 5000 0x61"
    using trim_replicate_space [OF a, of 5000] by (simp add: long_input_page_def)
  have v: "targetLang_value long_input_page = lit ''es''"
    by (simp add: targetLang_value_def long_input_page_def example_page_def)
  have e: "fetches long_input_page = []" "alerts long_input_page = []"
    by (simp_all add: long_input_page_def example_page_def)
  have l: "length (inputText_value long_input_page) = 5001"
    by (simp add: long_input_page_def)
  show ?thesis
    using t v e l by (simp add: translate_def Let_def fetch_def)
qed

text \<open>
  C1, amended. Whenever the trimmed input text is longer than 5000 code units,
  \<open>translate\<close> shows the error notification \<open>Text is too long\<close> and stops: no
  request is sent, and the translate button is left as it was (enabled if it was
  enabled, with the same label).
\<close>

theorem translate_rejects_long_trimmed_text:
  "length (trim (inputText_value s)) > 5000 \<Longrightarrow>
     translate s = showAlert s (lit ''Text is too long (max 5000 characters)'') (lit ''error'') \<and>
     notified (translate s) (lit ''error'') \<and>
     fetches (translate s) = fetches s \<and>
     pending (translate s) = pending s \<and>
     translateBtn_disabled (translate s) = translateBtn_disabled s \<and>
     translateBtn_innerHTML (translate s) = translateBtn_innerHTML s"
proof -
  assume h: "length (trim (inputText_value s)) > 5000"
  then have n: "trim (inputText_value s) \<noteq> []"
    by auto
  have "translate s = showAlert s (lit ''Text is too long (max 5000 characters)'') (lit ''error'')"
    using h n by (simp add: translate_def Let_def)
  then show ?thesis
    by (simp add: showAlert_keeps notified_showAlert)
qed

theorem translate_rejects_long_trimmed_text_witness:
  "length (trim (inputText_value (example_page\<lparr>inputText_value := replicate 5001 0x61\<rparr>))) > 5000 \<and>
   notified (translate (example_page\<lparr>inputText_value := replicate 5001 0x61\<rparr>)) (lit ''error'') \<and>
   fetches (translate (example_page\<lparr>inputText_value := replicate 5001 0x61\<rparr>)) = [] \<and>
   \<not> translateBtn_disabled (translate (example_page\<lparr>inputText_value := replicate 5001 0x61\<rparr>))"
proof -
  have a: "\<not> isWhiteSpace 0x61"
    by (simp add: isWhiteSpace_def)
  have h: "length (trim (inputText_value (example_page\<lparr>inputText_value := replicate 5001 0x61\<rparr>))) > 5000"
    using trim_replicate [OF a, of 5001] by simp
  have e: "fetches (example_page\<lparr>inputText_value := replicate 5001 0x61\<rparr>) = []"
      "\<not> translateBtn_disabled (example_page\<lparr>inputText_value := replicate 5001 0x61\<rparr>)"
    by (simp_all add: example_page_def)
  show ?thesis
    using translate_rejects_long_trimmed_text [OF h] h e
    by (simp add: showAlert_keeps notified_showAlert)
qed

subsection \<open>A detection response that reports failure\<close>

text \<open>
  C3. The claim asks for an error notification whenever a detection request fails,
  also when the server answers with \<open>success: false\<close>. \<open>detectLanguage\<close> has no
  \<open>else\<close> branch for that answer: on the page with no notification on display the
  answer \<open>failure_response\<close> leaves the page unchanged, so no notification appears,
  whereas \<open>translate\<close> and \<open>generateSpeech\<close> report the same answer as an error.
\<close>

theorem detectLanguage_ignores_failure_response:
  "\<not> success failure_response \<and>
   alerts example_page = [] \<and>
   detectLanguage_resume example_page (Resolved failure_response) = example_page \<and>
   \<not> notified (detectLanguage_resume example_page (Resolved failure_response)) (lit ''error'') \<and>
   notified (translate_resume example_page (Resolved failure_response)) (lit ''error'') \<and>
   notified (generateSpeech_resume example_page (Resolved failure_response)) (lit ''error'')"
proof -
  have f: "\<not> success failure_response"
    by (simp add: failure_response_def)
  have e: "alerts example_page = []"
    by (simp add: example_page_def)
  have d: "detectLanguage_resume example_page (Resolved failure_response) = example_page"
    using f by (simp add: detectLanguage_resume_def)
  have n: "\<not> notified example_page (lit ''error'')"
    using e by (simp add: notified_def)
  have t: "notified (translate_resume example_page (Resolved failure_response)) (lit ''error'')"
    using f notified_showAlert
    by (simp add: translate_resume_def translate_try_def translate_catch_def
        translate_finally_def notified_def showAlert_alerts)
  have g: "notified (generateSpeech_resume example_page (Resolved failure_response)) (lit ''error'')"
    using f notified_showAlert
    by (simp add: generateSpeech_resume_def generateSpeech_try_def generateSpeech_catch_def
        generateSpeech_finally_def notified_def showAlert_alerts)
  show ?thesis
    using f e d n t g by simp
qed

subsection \<open>Busy and idle\<close>

lemma translate_resume_idle:
  "\<not> translateBtn_disabled (translate_resume s r)"
  "translateBtn_innerHTML (translate_resume s r) = translateBtn_idle"
  by (simp_all add: translate_resume_def translate_finally_def)

lemma generateSpeech_resume_idle:
  "\<not> speakBtn_disabled (generateSpeech_resume s r)"
  "speakBtn_innerHTML (generateSpeech_resume s r) = speakBtn_idle"
  by (simp_all add: generateSpeech_resume_def generateSpeech_finally_def)

lemma translate_enters_busy:
  assumes "trim (inputText_value s) \<noteq> []" "length (trim (inputText_value s)) \<le> 5000"
  shows "translateBtn_disabled (translate s)"
    and "translateBtn_innerHTML (translate s) = translateBtn_busy"
    and "pending (translate s) = pending s @ [(next_rid s, HTranslate)]"
  using assms by (simp_all add: translate_def Let_def fetch_def)

lemma generateSpeech_enters_busy:
  assumes "currentTranslation s \<noteq> []"
  shows "speakBtn_disabled (generateSpeech s)"
    and "speakBtn_innerHTML (generateSpeech s) = speakBtn_busy"
    and "pending (generateSpeech s) = pending s @ [(next_rid s, HGenerateSpeech)]"
  using assms by (simp_all add: generateSpeech_def fetch_def)

text \<open>
  C2. The resumed part of \<open>translate\<close> and of \<open>generateSpeech\<close> ends, for every
  state it resumes in and every outcome of the request (a rejected \<open>fetch\<close> or
  \<open>json()\<close>, an answer reporting failure, a successful answer), with the button
  enabled and its idle label written. An invocation that passes its checks disables
  the button, writes the busy label and leaves exactly one request in flight for its
  handler; whenever a request in flight for the handler settles, the step of the page
  ends with the button enabled and the idle label.
\<close>

theorem busy_always_returns_to_idle:
  "(\<not> translateBtn_disabled (translate_resume s r) \<and>
    translateBtn_innerHTML (translate_resume s r) = translateBtn_idle) \<and>
   (\<not> speakBtn_disabled (generateSpeech_resume s r) \<and>
    speakBtn_innerHTML (generateSpeech_resume s r) = speakBtn_idle) \<and>
   (trim (inputText_value s) \<noteq> [] \<and> length (trim (inputText_value s)) \<le> 5000 \<longrightarrow>
      translateBtn_disabled (translate s) \<and>
      translateBtn_innerHTML (translate s) = translateBtn_busy \<and>
      pending (translate s) = pending s @ [(next_rid s, HTranslate)]) \<and>
   (currentTranslation s \<noteq> [] \<longrightarrow>
      speakBtn_disabled (generateSpeech s) \<and>
      speakBtn_innerHTML (generateSpeech s) = speakBtn_busy \<and>
      pending (generateSpeech s) = pending s @ [(next_rid s, HGenerateSpeech)]) \<and>
   (map_of (pending s) i = Some HTranslate \<longrightarrow>
      \<not> translateBtn_disabled (step s (Settled i r)) \<and>
      translateBtn_innerHTML (step s (Settled i r)) = translateBtn_idle) \<and>
   (map_of (pending s) i = Some HGenerateSpeech \<longrightarrow>
      \<not> speakBtn_disabled (step s (Settled i r)) \<and>
      speakBtn_innerHTML (step s (Settled i r)) = speakBtn_idle)"
  by (simp add: translate_resume_idle generateSpeech_resume_idle translate_enters_busy
      generateSpeech_enters_busy settle_def resume_def)

theorem busy_always_returns_to_idle_witness:
  "trim (inputText_value hello_page) \<noteq> [] \<and>
   length (trim (inputText_value hello_page)) \<le> 5000 \<and>
   translateBtn_disabled (translate hello_page) \<and>
   map_of (pending (translate hello_page)) 0 = Some HTranslate \<and>
   \<not> translateBtn_disabled (step (translate hello_page) (Settled 0 (Rejected (lit ''Failed to fetch'')))) \<and>
   currentTranslation (translate_resume hello_page (Resolved bonjour_response)) \<noteq> [] \<and>
   speakBtn_disabled (generateSpeech (translate_resume hello_page (Resolved bonjour_response))) \<and>
   map_of (pending (generateSpeech (translate_resume hello_page (Resolved bonjour_response)))) 0
     = Some HGenerateSpeech \<and>
   \<not> speakBtn_disabled
       (step (generateSpeech (translate_resume hello_page (Resolved bonjour_response)))
          (Settled 0 (Resolved failure_response)))"
proof -
  have t: "trim (inputText_value hello_page) = lit ''Hello''"
    by (simp add: hello_page_def trim_def lit_def isWhiteSpace_def)
  have n: "trim (inputText_value hello_page) \<noteq> []"
      "length (trim (inputText_value hello_page)) \<le> 5000"
    by (simp_all add: t lit_def)
  have p: "pending hello_page = []" "next_rid hello_page = 0"
    by (simp_all add: hello_page_def example_page_def)
  have c: "currentTranslation (translate_resume hello_page (Resolved bonjour_response)) = lit ''Bonjour''"
    by (simp add: translate_resume_def translate_try_def translate_finally_def
        bonjour_response_def showAlert_keeps)
  have q: "pending (translate_resume hello_page (Resolved bonjour_response)) = []"
      "next_rid (translate_resume hello_page (Resolved bonjour_response)) = 0"
    by (simp_all add: translate_resume_def translate_try_def translate_finally_def
        bonjour_response_def showAlert_keeps p)
  have m: "currentTranslation (translate_resume hello_page (Resolved bonjour_response)) \<noteq> []"
    by (simp add: c lit_def)
  show ?thesis
    using n m p q
      busy_always_returns_to_idle [of hello_page _ 0]
      busy_always_returns_to_idle [of "translate hello_page" "Rejected (lit ''Failed to fetch'')" 0]
      busy_always_returns_to_idle [of "translate_resume hello_page (Resolved bonjour_response)" _ 0]
      busy_always_returns_to_idle
        [of "generateSpeech (translate_resume hello_page (Resolved bonjour_response))"
            "Resolved failure_response" 0]
    by simp
qed

subsection \<open>A successful translation\<close>

lemma translate_resume_success:
  "success d \<Longrightarrow>
     translate_resume s (Resolved d) =
       translate_finally
         (showAlert
            (s\<lparr>currentTranslation := translated_text d,
               outputText_innerHTML :=
                 TranslationResult (source_lang d) (target_lang d) (translated_text d),
               outputText_alerts := result_alerts d,
               detectedLang_textContent := source_lang d,
               detectedLangCode_textContent := source_code d,
               targetLangName_textContent := target_lang d,
               targetLangCode_textContent := target_code d,
               speakBtn_disabled := False,
               copyBtn_disabled := False,
               downloadBtn_disabled := False,
               audioPlayer_display := lit ''none''\<rparr>)
            (lit ''Translation successful!'') (lit ''success''))"
  by (simp add: translate_resume_def translate_try_def)

lemma notified_translate_finally: "notified (translate_finally s) k = notified s k"
  by (simp add: notified_def translate_finally_def)

lemma generateSpeech_resume_success:
  "success d \<Longrightarrow> audioPlayer_display (generateSpeech_resume s (Resolved d)) = lit ''flex''"
  by (simp add: generateSpeech_resume_def generateSpeech_try_def generateSpeech_finally_def
      showAlert_keeps setTimeout_def)

text \<open>
  C5. On every successful answer to a translate request the handler stores the new
  translated text in place of the old, writes the result area and the source and
  target language fields from the answer, enables the speak, copy and download
  buttons and hides the audio player; it sends no request itself, so the player is
  hidden before any later speech request, and it shows a success notification.
\<close>

theorem translate_success_updates:
  "success d \<Longrightarrow>
     currentTranslation (translate_resume s (Resolved d)) = translated_text d \<and>
     outputText_innerHTML (translate_resume s (Resolved d)) =
       TranslationResult (source_lang d) (target_lang d) (translated_text d) \<and>
     detectedLang_textContent (translate_resume s (Resolved d)) = source_lang d \<and>
     detectedLangCode_textContent (translate_resume s (Resolved d)) = source_code d \<and>
     targetLangName_textContent (translate_resume s (Resolved d)) = target_lang d \<and>
     targetLangCode_textContent (translate_resume s (Resolved d)) = target_code d \<and>
     \<not> speakBtn_disabled (translate_resume s (Resolved d)) \<and>
     \<not> copyBtn_disabled (translate_resume s (Resolved d)) \<and>
     \<not> downloadBtn_disabled (translate_resume s (Resolved d)) \<and>
     audioPlayer_display (translate_resume s (Resolved d)) = lit ''none'' \<and>
     fetches (translate_resume s (Resolved d)) = fetches s \<and>
     pending (translate_resume s (Resolved d)) = pending s \<and>
     notified (translate_resume s (Resolved d)) (lit ''success'')"
  by (simp add: translate_resume_success notified_translate_finally notified_showAlert)
    (simp add: translate_finally_def showAlert_keeps)

theorem translate_success_updates_witness:
  "success bonjour_response \<and>
   audioPlayer_display (generateSpeech_resume hello_page (Resolved bonjour_response)) = lit ''flex'' \<and>
   audioPlayer_display
     (translate_resume (generateSpeech_resume hello_page (Resolved bonjour_response))
        (Resolved bonjour_response)) = lit ''none'' \<and>
   currentTranslation (translate_resume hello_page (Resolved bonjour_response)) = lit ''Bonjour'' \<and>
   outputText_innerHTML (translate_resume hello_page (Resolved bonjour_response)) =
     TranslationResult (lit ''English'') (lit ''French'') (lit ''Bonjour'') \<and>
   detectedLangCode_textContent (translate_resume hello_page (Resolved bonjour_response)) = lit ''en'' \<and>
   targetLangCode_textContent (translate_resume hello_page (Resolved bonjour_response)) = lit ''fr'' \<and>
   \<not> speakBtn_disabled (translate_resume hello_page (Resolved bonjour_response))"
proof -
  have h: "success bonjour_response"
    by (simp add: bonjour_response_def)
  have f: "translated_text bonjour_response = lit ''Bonjour''"
      "source_lang bonjour_response = lit ''English''"
      "target_lang bonjour_response = lit ''French''"
      "source_code bonjour_response = lit ''en''"
      "target_code bonjour_response = lit ''fr''"
    by (simp_all add: bonjour_response_def)
  show ?thesis
    using h f generateSpeech_resume_success [OF h, of hello_page]
      translate_success_updates [OF h, of hello_page]
      translate_success_updates
        [OF h, of "generateSpeech_resume hello_page (Resolved bonjour_response)"]
    by simp
qed

subsection \<open>The language of a speech request\<close>

text \<open>
  C10. When a translation is stored, \<open>generateSpeech\<close> sends to \<open>/tts\<close> exactly the
  stored translation as \<open>text\<close> and the current value of the target-language
  dropdown as \<open>lang\<close>. So after a successful translation and a change of the dropdown
  to option \<open>i\<close>, the language sent is the value of option \<open>i\<close>, whatever target
  code the translation answer carried.
\<close>

theorem speech_request_uses_dropdown_value:
  "(currentTranslation s \<noteq> [] \<longrightarrow>
      fetches (generateSpeech s) =
        fetches s @ [\<lparr>url = lit ''/tts'',
                      body = [(lit ''text'', currentTranslation s),
                              (lit ''lang'', targetLang_value s)]\<rparr>]) \<and>
   (success d \<and> translated_text d \<noteq> [] \<and> i < length (targetLang_options s) \<longrightarrow>
      fetches (generateSpeech (step (translate_resume s (Resolved d)) (ChangeTargetLang i))) =
        fetches s @ [\<lparr>url = lit ''/tts'',
                      body = [(lit ''text'', translated_text d),
                              (lit ''lang'', fst (targetLang_options s ! i))]\<rparr>])"
proof -
  have a: "currentTranslation s \<noteq> [] \<longrightarrow>
      fetches (generateSpeech s) =
        fetches s @ [\<lparr>url = lit ''/tts'',
                      body = [(lit ''text'', currentTranslation s),
                              (lit ''lang'', targetLang_value s)]\<rparr>]"
    by (simp add: generateSpeech_def fetch_def)
  have b: "fetches (generateSpeech (step (translate_resume s (Resolved d)) (ChangeTargetLang i))) =
        fetches s @ [\<lparr>url = lit ''/tts'',
                      body = [(lit ''text'', translated_text d),
                              (lit ''lang'', fst (targetLang_options s ! i))]\<rparr>]"
    if h: "success d" "translated_text d \<noteq> []" "i < length (targetLang_options s)"
  proof -
    let ?t = "translate_resume s (Resolved d)"
    have o: "targetLang_options ?t = targetLang_options s" "fetches ?t = fetches s"
        "currentTranslation ?t = translated_text d"
      using h(1) by (simp_all add: translate_resume_success translate_finally_def showAlert_keeps)
    let ?c = "step ?t (ChangeTargetLang i)"
    have c: "currentTranslation ?c = translated_text d" "fetches ?c = fetches s"
        "targetLang_value ?c = fst (targetLang_options s ! i)"
      using h(3) o
      by (simp_all add: Let_def or_thrown_def updateTargetLanguage_def targetLang_value_def)
    show ?thesis
      using c h(2) by (simp add: generateSpeech_def fetch_def)
  qed
  show ?thesis
    using a b by blast
qed

theorem speech_request_uses_dropdown_value_witness:
  "success bonjour_response \<and> translated_text bonjour_response \<noteq> [] \<and>
   2 < length (targetLang_options hello_page) \<and>
   target_code bonjour_response = lit ''fr'' \<and>
   lit ''fr'' \<noteq> lit ''de'' \<and>
   fetches (generateSpeech
              (step (translate_resume hello_page (Resolved bonjour_response)) (ChangeTargetLang 2))) =
     [\<lparr>url = lit ''/tts'', body = [(lit ''text'', lit ''Bonjour''), (lit ''lang'', lit ''de'')]\<rparr>] \<and>
   currentTranslation (translate_resume hello_page (Resolved bonjour_response)) \<noteq> [] \<and>
   fetches (generateSpeech (translate_resume hello_page (Resolved bonjour_response))) =
     [\<lparr>url = lit ''/tts'', body = [(lit ''text'', lit ''Bonjour''), (lit ''lang'', lit ''es'')]\<rparr>]"
proof -
  have h: "success bonjour_response" "translated_text bonjour_response \<noteq> []"
      "translated_text bonjour_response = lit ''Bonjour''"
      "target_code bonjour_response = lit ''fr''"
    by (simp_all add: bonjour_response_def lit_def)
  have o: "2 < length (targetLang_options hello_page)"
      "fst (targetLang_options hello_page ! 2) = lit ''de''" "fetches hello_page = []"
    by (simp_all add: hello_page_def example_page_def)
  let ?t = "translate_resume hello_page (Resolved bonjour_response)"
  have k: "targetLang_selectedIndex ?t = targetLang_selectedIndex hello_page"
      "targetLang_options ?t = targetLang_options hello_page"
    using h(1) by (simp_all add: translate_resume_success translate_finally_def showAlert_keeps)
  have v: "targetLang_value hello_page = lit ''es''"
    by (simp add: targetLang_value_def hello_page_def example_page_def)
  have w: "targetLang_value ?t = lit ''es''"
    unfolding targetLang_value_def k using v [unfolded targetLang_value_def] .
  have c: "currentTranslation ?t = lit ''Bonjour''" "fetches ?t = []"
    using h(1) h(3) o(3)
    by (simp_all add: translate_resume_success translate_finally_def showAlert_keeps)
  have n: "currentTranslation ?t \<noteq> []" "lit ''fr'' \<noteq> lit ''de''"
    by (simp_all add: c lit_def)
  show ?thesis
    using h o c n w
      speech_request_uses_dropdown_value [of ?t bonjour_response 2]
      speech_request_uses_dropdown_value [of hello_page bonjour_response 2]
    by simp
qed

subsection \<open>Notifications\<close>

text \<open>
  What \<open>showAlert\<close> and the removal callback do to the attached notifications: with
  no element of class \<open>alert\<close> in the result area the notification on display is
  replaced; with one there, that element is removed instead and the notification
  stays.
\<close>

lemma showAlert_replaces:
  "outputText_alerts s = 0 \<Longrightarrow> length (alerts s) \<le> Suc 0 \<Longrightarrow>
     alerts (showAlert s m k) =
       [\<lparr>aid = next_aid s, className = lit ''alert alert-'' @ k, message = m, animation = []\<rparr>]"
  by (cases "alerts s") (simp_all add: showAlert_alerts)

lemma showAlert_keeps_notifications:
  "0 < outputText_alerts s \<Longrightarrow>
     alerts (showAlert s m k) =
       alerts s @
         [\<lparr>aid = next_aid s, className = lit ''alert alert-'' @ k, message = m, animation = []\<rparr>]"
  by (simp add: showAlert_alerts)

lemma alert_remove_alerts:
  "alerts (run_callback s (CbAlertRemove a)) = filter (\<lambda>x. aid x \<noteq> a) (alerts s)"
  by (simp add: run_callback_def alert_remove_def)

text \<open>The definitions to unfold when a run of \<open>example_page\<close> is evaluated.\<close>

lemmas eval_defs =
  run_def example_page_def Let_def showAlert_def setTimeout_def clearTimeout_def fetch_def
  quick_text_click_def dispatch_input_def update_counter_def auto_detect_def
  translate_def targetLang_value_def settle_def resume_def translate_resume_def
  translate_try_def translate_finally_def trim_def lit_def isWhiteSpace_def

text \<open>
  C9. The claim asks for at most one notification in the document at any time, a new
  one first removing the one on display. \<open>showAlert\<close> removes the first element of
  class \<open>alert\<close> of the document, and \<open>translate\<close> writes the translated text
  unescaped into the result area. On the page loaded, an example text is loaded (its
  notification is on display), the translate button is clicked, and the answer
  \<open>injected_response\<close> arrives before any time has passed: \<open>showAlert\<close> removes the
  element the translated text created, and two notifications are attached. With the
  answer \<open>bonjour_response\<close>, of plain text, the same run leaves only the new one.
\<close>

theorem notifications_pile_up_after_injected_markup:
  "map message (alerts (run example_page [ClickQuickText (lit ''Hello''), ClickTranslate])) =
     [lit ''Example text loaded''] \<and>
   map fst (pending (run example_page [ClickQuickText (lit ''Hello''), ClickTranslate])) = [0] \<and>
   clock (run example_page
     [ClickQuickText (lit ''Hello''), ClickTranslate, Settled 0 (Resolved injected_response)]) = 0 \<and>
   map message (alerts (run example_page
     [ClickQuickText (lit ''Hello''), ClickTranslate, Settled 0 (Resolved injected_response)])) =
     [lit ''Example text loaded'', lit ''Translation successful!''] \<and>
   length (alerts (run example_page
     [ClickQuickText (lit ''Hello''), ClickTranslate, Settled 0 (Resolved injected_response)])) = 2 \<and>
   outputText_alerts (run example_page
     [ClickQuickText (lit ''Hello''), ClickTranslate, Settled 0 (Resolved injected_response)]) = 0 \<and>
   map message (alerts (run example_page
     [ClickQuickText (lit ''Hello''), ClickTranslate, Settled 0 (Resolved bonjour_response)])) =
     [lit ''Translation successful!'']"
  by (simp add: eval_defs injected_response_def bonjour_response_def)

subsection \<open>Debounced detection\<close>

text \<open>
  Handlers and callbacks other than the \<open>input\<close> listener only add timers that do
  not call \<open>detectLanguage\<close>, which keeps both invariants; the \<open>input\<close> listener
  cancels the timer it holds and may arm the next.
\<close>

lemma fresh_facts:
  "fresh new n n' \<Longrightarrow>
     n \<le> n' \<and> (\<forall>t \<in> set new. n \<le> tid t \<and> tid t < n' \<and> cb t \<noteq> CbDetectLanguage) \<and>
     distinct (map tid new)"
proof (induction new arbitrary: n)
  case Nil
  then show ?case by simp
next
  case (Cons t ts)
  from Cons.prems have f: "fresh ts (Suc n) n'" and t: "tid t = n" "cb t \<noteq> CbDetectLanguage"
    by simp_all
  from Cons.IH [OF f] t show ?case
    by (auto simp: Suc_le_eq)
qed

lemma added_split:
  assumes "other_timers_added s s'"
  shows "timers s' = timers s @ drop (length (timers s)) (timers s')"
proof -
  have "take (length (timers s)) (timers s') = timers s"
    using assms by (simp add: other_timers_added_def)
  then show ?thesis
    using append_take_drop_id [of "length (timers s)" "timers s'"] by simp
qed

lemma added_timers_ok:
  assumes a: "other_timers_added s s'" and k: "timers_ok s"
  shows "timers_ok s'"
proof -
  let ?new = "drop (length (timers s)) (timers s')"
  have f: "fresh ?new (next_tid s) (next_tid s')"
    using a by (simp add: other_timers_added_def)
  note ff = fresh_facts [OF f]
  have d: "detectTimeout s' = detectTimeout s"
    using a by (simp add: other_timers_added_def)
  have t: "timers s' = timers s @ ?new"
    by (rule added_split [OF a])
  have "distinct (map tid (timers s @ ?new))"
    using k ff by (fastforce simp: timers_ok_def)
  moreover have "\<forall>t \<in> set (timers s @ ?new). tid t < next_tid s'"
    using k ff by (fastforce simp: timers_ok_def)
  moreover have "\<forall>t \<in> set (timers s @ ?new). cb t = CbDetectLanguage \<longrightarrow>
      detectTimeout s' = Some (tid t)"
    using k ff d by (auto simp: timers_ok_def)
  ultimately show ?thesis
    unfolding timers_ok_def [of s'] t [symmetric] by blast
qed

lemma added_due_ok:
  assumes a: "other_timers_added s s'" and k: "due_ok s q"
  shows "due_ok s' q"
proof -
  let ?new = "drop (length (timers s)) (timers s')"
  have f: "fresh ?new (next_tid s) (next_tid s')"
    using a by (simp add: other_timers_added_def)
  note ff = fresh_facts [OF f]
  have c: "clock s' = clock s"
    using a by (simp add: other_timers_added_def)
  have t: "timers s' = timers s @ ?new"
    by (rule added_split [OF a])
  have "\<forall>t \<in> set (timers s @ ?new). cb t = CbDetectLanguage \<longrightarrow>
      (case q of None \<Rightarrow> False | Some n \<Rightarrow> due t + n = clock s' + 1500)"
    unfolding c using k ff by (auto simp: due_ok_def)
  then show ?thesis
    unfolding due_ok_def [of s'] t [symmetric] by blast
qed

lemma added_detect_timers:
  assumes a: "other_timers_added s s'"
  shows "detect_timers s' = detect_timers s"
proof -
  let ?new = "drop (length (timers s)) (timers s')"
  have f: "fresh ?new (next_tid s) (next_tid s')"
    using a by (simp add: other_timers_added_def)
  note ff = fresh_facts [OF f]
  have "filter (\<lambda>t. cb t = CbDetectLanguage) ?new = []"
    using ff by (auto simp: filter_empty_conv)
  then show ?thesis
    unfolding detect_timers_def by (subst added_split [OF a]) simp
qed


lemma fresh_snoc:
  "fresh new n n' \<Longrightarrow> f \<noteq> CbDetectLanguage \<Longrightarrow>
     fresh (new @ [\<lparr>tid = n', due = d, cb = f\<rparr>]) n (Suc n')"
  by (induction new arbitrary: n) auto

lemma added_refl: "other_timers_added s s"
  by (simp add: other_timers_added_def)

lemma added_setTimeout:
  assumes a: "other_timers_added s s'" and f: "f \<noteq> CbDetectLanguage"
  shows "other_timers_added s (setTimeout s' f d)"
proof -
  let ?new = "drop (length (timers s)) (timers s')"
  let ?t = "\<lparr>tid = next_tid s', due = clock s' + d, cb = f\<rparr>"
  have n: "fresh ?new (next_tid s) (next_tid s')"
    using a by (simp add: other_timers_added_def)
  have t: "timers (setTimeout s' f d) = timers s @ (?new @ [?t])"
    using added_split [OF a] by (simp add: setTimeout_def)
  have "fresh (?new @ [?t]) (next_tid s) (Suc (next_tid s'))"
    by (rule fresh_snoc [OF n f])
  then show ?thesis
    using a unfolding other_timers_added_def t by (simp add: setTimeout_def)
qed

lemma added_showAlert:
  assumes a: "other_timers_added s s'"
  shows "other_timers_added s (showAlert s' m k)"
proof -
  let ?new = "drop (length (timers s)) (timers s')"
  let ?t = "\<lparr>tid = next_tid s', due = clock s' + 5000, cb = CbAlertAutoRemove (next_aid s')\<rparr>"
  have n: "fresh ?new (next_tid s) (next_tid s')"
    using a by (simp add: other_timers_added_def)
  have t: "timers (showAlert s' m k) = timers s @ (?new @ [?t])"
    using added_split [OF a] by (simp add: showAlert_timers)
  have "fresh (?new @ [?t]) (next_tid s) (Suc (next_tid s'))"
    by (rule fresh_snoc [OF n]) simp
  then show ?thesis
    using a unfolding other_timers_added_def t
    by (simp add: showAlert_counters showAlert_keeps)
qed

lemma added_fetch:
  "other_timers_added s s' \<Longrightarrow> other_timers_added s (fetch s' h r)"
  by (simp add: other_timers_added_def fetch_def)

lemma added_translate_finally:
  "other_timers_added s s' \<Longrightarrow> other_timers_added s (translate_finally s')"
  by (simp add: other_timers_added_def translate_finally_def)

lemma added_generateSpeech_finally:
  "other_timers_added s s' \<Longrightarrow> other_timers_added s (generateSpeech_finally s')"
  by (simp add: other_timers_added_def generateSpeech_finally_def)

lemma added_detectLanguage:
  "other_timers_added s s' \<Longrightarrow> other_timers_added s (detectLanguage s')"
  by (simp add: detectLanguage_def Let_def added_fetch) (simp add: other_timers_added_def)

lemma added_translate:
  "other_timers_added s s' \<Longrightarrow> other_timers_added s (translate s')"
  by (simp add: translate_def Let_def added_showAlert)
    (rule impI, rule impI, rule added_fetch, simp add: other_timers_added_def)

lemma added_generateSpeech:
  "other_timers_added s s' \<Longrightarrow> other_timers_added s (generateSpeech s')"
  by (simp add: generateSpeech_def added_showAlert)
    (rule impI, rule added_fetch, simp add: other_timers_added_def)

lemma added_copyTranslation:
  "other_timers_added s s' \<Longrightarrow> other_timers_added s (copyTranslation s')"
  by (simp add: copyTranslation_def added_showAlert)
    (simp add: other_timers_added_def clipboard_writeText_def)

lemma added_clearAll:
  "other_timers_added s s' \<Longrightarrow> other_timers_added s (clearAll s')"
  unfolding clearAll_def by (rule added_showAlert) (simp add: other_timers_added_def)

lemma added_detectLanguage_resume:
  "other_timers_added s s' \<Longrightarrow> other_timers_added s (detectLanguage_resume s' r)"
  by (cases r)
    (auto simp: detectLanguage_resume_def intro!: added_showAlert, simp add: other_timers_added_def)

lemma added_translate_resume:
  "other_timers_added s s' \<Longrightarrow> other_timers_added s (translate_resume s' r)"
  unfolding translate_resume_def
  by (rule added_translate_finally, cases r)
    (auto simp: translate_try_def translate_catch_def intro!: added_showAlert,
      simp add: other_timers_added_def)

lemma added_generateSpeech_resume:
  "other_timers_added s s' \<Longrightarrow> other_timers_added s (generateSpeech_resume s' r)"
  unfolding generateSpeech_resume_def
  by (rule added_generateSpeech_finally, cases r)
    (auto simp: generateSpeech_try_def generateSpeech_catch_def
      intro!: added_showAlert added_setTimeout, simp add: other_timers_added_def)

lemma added_resume:
  "other_timers_added s s' \<Longrightarrow> other_timers_added s (resume s' h r)"
  by (cases h)
    (simp_all add: resume_def added_detectLanguage_resume added_translate_resume
      added_generateSpeech_resume)

lemma added_settle: "other_timers_added s (settle s i r)"
  by (auto simp: settle_def added_refl split: option.splits intro!: added_resume)
    (simp add: other_timers_added_def)

lemma added_copyTranslation_resume:
  "other_timers_added s s' \<Longrightarrow> other_timers_added s (copyTranslation_resume s' ok)"
  by (auto simp: copyTranslation_resume_def intro!: added_showAlert added_setTimeout)
    (simp add: other_timers_added_def)

lemma added_clipboard_settle: "other_timers_added s (clipboard_settle s i ok)"
  by (auto simp: clipboard_settle_def added_refl intro!: added_copyTranslation_resume)
    (simp add: other_timers_added_def)

lemma added_updateTargetLanguage:
  "updateTargetLanguage s' = Some s'' \<Longrightarrow> other_timers_added s s' \<Longrightarrow> other_timers_added s s''"
  by (auto simp: updateTargetLanguage_def other_timers_added_def split: option.splits if_splits)

lemma added_run_callback:
  "other_timers_added s s' \<Longrightarrow> other_timers_added s (run_callback s' f)"
  by (cases f)
    (auto simp: run_callback_def alert_auto_remove_def intro!: added_setTimeout added_detectLanguage,
      simp_all add: other_timers_added_def alert_set_animation_def alert_remove_def)

lemma added_update_counter:
  "other_timers_added s s' \<Longrightarrow> other_timers_added s (update_counter s')"
  by (simp add: other_timers_added_def update_counter_def Let_def)

lemma step_added:
  "(case e of
      Input v \<Rightarrow> True
    | ClickQuickText v \<Rightarrow> True
    | Timeout i \<Rightarrow> True
    | Elapse d \<Rightarrow> True
    | _ \<Rightarrow> other_timers_added s (step s e))"
proof (cases e)
  case (ClickQuickLang lang)
  have "other_timers_added s (set_targetLang_value s lang)"
    by (simp add: other_timers_added_def set_targetLang_value_def)
  then show ?thesis
    using ClickQuickLang
    by (auto simp: quick_lang_click_def Let_def or_thrown_def split: option.splits
        intro: added_updateTargetLanguage)
next
  case (ClickLangCard lang name)
  have "other_timers_added s (set_targetLang_value s lang)"
    by (simp add: other_timers_added_def set_targetLang_value_def)
  then show ?thesis
    using ClickLangCard
    by (auto simp: lang_card_click_def Let_def split: option.splits
        intro!: added_showAlert intro: added_updateTargetLanguage)
next
  case (ChangeTargetLang i)
  have "other_timers_added s (s\<lparr>targetLang_selectedIndex := Some i\<rparr>)"
    by (simp add: other_timers_added_def)
  then show ?thesis
    using ChangeTargetLang
    by (auto simp: Let_def or_thrown_def added_refl split: option.splits
        intro: added_updateTargetLanguage)
next
  case (ClickAlertClose a)
  have "other_timers_added s (alert_set_animation s a (lit ''slideOut 0.3s ease''))"
    by (simp add: other_timers_added_def alert_set_animation_def)
  then show ?thesis
    using ClickAlertClose by (simp add: alert_close_click_def added_setTimeout added_refl)
next
  case (ClickDownload now)
  then show ?thesis
    by (simp add: download_click_def other_timers_added_def)
next
  case AudioPlay
  then show ?thesis
    by (simp add: other_timers_added_def)
next
  case AudioEnded
  then show ?thesis
    by (simp add: other_timers_added_def)
qed (simp_all add: added_refl added_translate added_detectLanguage added_generateSpeech
      added_copyTranslation added_clearAll added_settle added_clipboard_settle)

lemma filter_timers_ok:
  "timers_ok s \<Longrightarrow> timers_ok (s\<lparr>timers := filter P (timers s)\<rparr>)"
  by (auto simp: timers_ok_def distinct_map_filter)

lemma filter_due_ok:
  "due_ok s q \<Longrightarrow> due_ok (s\<lparr>timers := filter P (timers s)\<rparr>) q"
  by (auto simp: due_ok_def split: option.splits)

lemma detect_timers_cleared:
  assumes "timers_ok s"
  shows "detect_timers (clearTimeout s (detectTimeout s)) = []"
  using assms
  by (auto simp: detect_timers_def clearTimeout_def timers_ok_def filter_empty_conv
      split: option.splits)

lemma clearTimeout_timers_ok:
  "timers_ok s \<Longrightarrow> timers_ok (clearTimeout s h)"
  by (cases h) (simp_all add: clearTimeout_def filter_timers_ok)

lemma auto_detect_timers:
  assumes k: "timers_ok s"
  shows "detect_timers (auto_detect s) =
           (if 3 \<le> length (trim (inputText_value s))
            then [\<lparr>tid = next_tid s, due = clock s + 1500, cb = CbDetectLanguage\<rparr>]
            else [])"
proof -
  let ?c = "clearTimeout s (detectTimeout s)"
  have c: "detect_timers ?c = []"
    by (rule detect_timers_cleared [OF k])
  have f: "inputText_value ?c = inputText_value s" "next_tid ?c = next_tid s"
      "clock ?c = clock s"
    by (simp_all add: clearTimeout_def split: option.splits)
  show ?thesis
    using c f by (simp add: auto_detect_def Let_def setTimeout_def detect_timers_def)
qed

lemma auto_detect_timers_ok:
  assumes k: "timers_ok s"
  shows "timers_ok (auto_detect s)"
proof -
  let ?c = "clearTimeout s (detectTimeout s)"
  have c: "detect_timers ?c = []"
    by (rule detect_timers_cleared [OF k])
  have o: "timers_ok ?c"
    by (rule clearTimeout_timers_ok [OF k])
  have n: "next_tid ?c = next_tid s"
    by (simp add: clearTimeout_def split: option.splits)
  have "\<forall>t \<in> set (timers ?c). cb t \<noteq> CbDetectLanguage"
    using c by (simp add: detect_timers_def filter_empty_conv)
  then show ?thesis
    using o n by (fastforce simp: auto_detect_def Let_def setTimeout_def timers_ok_def)
qed

lemma auto_detect_due_ok:
  assumes k: "timers_ok s"
  shows "due_ok (auto_detect s) (Some 0)"
proof -
  have "\<forall>t \<in> set (detect_timers (auto_detect s)). due t = clock (auto_detect s) + 1500"
    unfolding auto_detect_timers [OF k]
    by (simp add: auto_detect_def Let_def setTimeout_def clearTimeout_def split: option.splits)
  then show ?thesis
    by (simp add: due_ok_def detect_timers_def)
qed

lemma dispatch_input_timers_ok:
  "timers_ok s \<Longrightarrow> timers_ok (dispatch_input s)"
  unfolding dispatch_input_def
  by (rule auto_detect_timers_ok) (simp add: timers_ok_def update_counter_def Let_def)

lemma dispatch_input_due_ok:
  "timers_ok s \<Longrightarrow> due_ok (dispatch_input s) (Some 0)"
  unfolding dispatch_input_def
  by (rule auto_detect_due_ok) (simp add: timers_ok_def update_counter_def Let_def)

lemma fire_cases:
  "fire s i = s \<or>
   (\<exists>t. find (\<lambda>t. tid t = i) (timers s) = Some t \<and> due t \<le> clock s \<and>
        fire s i = run_callback (s\<lparr>timers := filter (\<lambda>t. tid t \<noteq> i) (timers s)\<rparr>) (cb t))"
  by (simp add: fire_def split: option.splits)

lemma fire_timers_ok:
  assumes k: "timers_ok s"
  shows "timers_ok (fire s i)"
proof -
  have "timers_ok (run_callback (s\<lparr>timers := filter P (timers s)\<rparr>) f)" for P f
    by (rule added_timers_ok [OF added_run_callback [OF added_refl] filter_timers_ok [OF k]])
  then show ?thesis
    using k fire_cases [of s i] by auto
qed

lemma fire_due_ok:
  assumes d: "due_ok s q"
  shows "due_ok (fire s i) q"
proof -
  have "due_ok (run_callback (s\<lparr>timers := filter P (timers s)\<rparr>) f) q" for P f
    by (rule added_due_ok [OF added_run_callback [OF added_refl] filter_due_ok [OF d]])
  then show ?thesis
    using d fire_cases [of s i] by auto
qed

lemma step_timers_ok:
  assumes k: "timers_ok s"
  shows "timers_ok (step s e)"
proof (cases e)
  case (Input v)
  have "timers_ok (s\<lparr>inputText_value := v\<rparr>)"
    using k by (simp add: timers_ok_def)
  then show ?thesis
    using Input by (simp add: dispatch_input_timers_ok)
next
  case (ClickQuickText v)
  have "timers_ok (s\<lparr>inputText_value := normalize_newlines v\<rparr>)"
    using k by (simp add: timers_ok_def)
  then have "timers_ok (dispatch_input (s\<lparr>inputText_value := normalize_newlines v\<rparr>))"
    by (rule dispatch_input_timers_ok)
  then show ?thesis
    using ClickQuickText added_timers_ok [OF added_showAlert [OF added_refl]]
    by (simp add: quick_text_click_def)
next
  case (Timeout i)
  then show ?thesis
    using k by (simp add: fire_timers_ok)
next
  case (Elapse d)
  then show ?thesis
    using k by (simp add: timers_ok_def)
qed (use k step_added [where e = e and s = s] in \<open>auto intro: added_timers_ok\<close>)

lemma step_due_ok:
  assumes k: "timers_ok s" and d: "due_ok s q"
  shows "due_ok (step s e) (quiet_step q e)"
proof (cases e)
  case (Input v)
  have "timers_ok (s\<lparr>inputText_value := v\<rparr>)"
    using k by (simp add: timers_ok_def)
  then show ?thesis
    using Input by (simp add: dispatch_input_due_ok quiet_step_def)
next
  case (ClickQuickText v)
  have "timers_ok (s\<lparr>inputText_value := normalize_newlines v\<rparr>)"
    using k by (simp add: timers_ok_def)
  then have "due_ok (dispatch_input (s\<lparr>inputText_value := normalize_newlines v\<rparr>)) (Some 0)"
    by (rule dispatch_input_due_ok)
  then show ?thesis
    using ClickQuickText added_due_ok [OF added_showAlert [OF added_refl]]
    by (simp add: quick_text_click_def quiet_step_def)
next
  case (Timeout i)
  then show ?thesis
    using d by (simp add: fire_due_ok quiet_step_def)
next
  case (Elapse x)
  then show ?thesis
    using d by (auto simp: due_ok_def quiet_step_def split: option.splits)
qed (use d step_added [where e = e and s = s] in \<open>auto simp: quiet_step_def intro: added_due_ok\<close>)

lemma run_invariant:
  "timers_ok s \<Longrightarrow> due_ok s q \<Longrightarrow>
     timers_ok (run s evs) \<and> due_ok (run s evs) (foldl quiet_step q evs)"
  unfolding run_def
proof (induction evs arbitrary: s q)
  case Nil
  then show ?case by simp
next
  case (Cons e evs)
  show ?case
    using Cons.IH [OF step_timers_ok [OF Cons.prems(1)] step_due_ok [OF Cons.prems]]
    by simp
qed


lemma same_key_le1:
  "distinct (map f xs) \<Longrightarrow> \<forall>x \<in> set xs. f x = c \<Longrightarrow> length xs \<le> 1"
  by (cases xs; cases "tl xs") auto

lemma detect_timers_le1:
  assumes k: "timers_ok s"
  shows "length (detect_timers s) \<le> 1"
proof (cases "detectTimeout s")
  case None
  then have "detect_timers s = []"
    using k by (auto simp: detect_timers_def timers_ok_def filter_empty_conv)
  then show ?thesis by simp
next
  case (Some i)
  have d: "distinct (map tid (detect_timers s))"
    using k by (simp add: detect_timers_def timers_ok_def distinct_map_filter)
  have "\<forall>t \<in> set (detect_timers s). tid t = i"
    using k Some by (auto simp: detect_timers_def timers_ok_def)
  then show ?thesis
    by (rule same_key_le1 [OF d])
qed

lemma input_detect_timers:
  assumes k: "timers_ok s"
  shows "detect_timers (step s (Input v)) =
           (if 3 \<le> length (trim v)
            then [\<lparr>tid = next_tid s, due = clock s + 1500, cb = CbDetectLanguage\<rparr>]
            else [])"
proof -
  let ?u = "update_counter (s\<lparr>inputText_value := v\<rparr>)"
  have u: "timers_ok ?u"
    using k by (simp add: timers_ok_def update_counter_def Let_def)
  have f: "inputText_value ?u = v" "next_tid ?u = next_tid s" "clock ?u = clock s"
    by (simp_all add: update_counter_def Let_def)
  show ?thesis
    using auto_detect_timers [OF u] f by (simp add: dispatch_input_def)
qed

lemma run_callback_fetches:
  "f \<noteq> CbDetectLanguage \<Longrightarrow> fetches (run_callback s f) = fetches s"
  by (cases f)
    (simp_all add: run_callback_def alert_auto_remove_def alert_remove_def setTimeout_def
      alert_set_animation_def)

lemma fire_fetch:
  assumes n: "fetches (fire s i) \<noteq> fetches s"
  shows "\<exists>t. find (\<lambda>t. tid t = i) (timers s) = Some t \<and> cb t = CbDetectLanguage \<and>
             due t \<le> clock s \<and>
             fire s i = detectLanguage (s\<lparr>timers := filter (\<lambda>t. tid t \<noteq> i) (timers s)\<rparr>)"
proof -
  from n fire_cases [of s i] obtain t where
    t: "find (\<lambda>t. tid t = i) (timers s) = Some t" "due t \<le> clock s"
      "fire s i = run_callback (s\<lparr>timers := filter (\<lambda>t. tid t \<noteq> i) (timers s)\<rparr>) (cb t)"
    by auto
  have c: "cb t = CbDetectLanguage"
  proof (rule ccontr)
    assume "cb t \<noteq> CbDetectLanguage"
    then have "fetches (fire s i) = fetches s"
      using t(3) by (simp add: run_callback_fetches)
    with n show False by simp
  qed
  show ?thesis
    using t c by (simp add: run_callback_def)
qed

lemma detectLanguage_fetches:
  "fetches (detectLanguage s) = fetches s \<or>
   fetches (detectLanguage s) =
     fetches s @ [\<lparr>url = lit ''/detect'', body = [(lit ''text'', trim (inputText_value s))]\<rparr>]"
  by (simp add: detectLanguage_def Let_def fetch_def)

lemma detectLanguage_timers: "timers (detectLanguage s) = timers s"
  by (simp add: detectLanguage_def Let_def fetch_def)

lemma timeout_fetch:
  assumes k: "timers_ok s" and d: "due_ok s q"
    and n: "fetches (step s (Timeout i)) \<noteq> fetches s"
  shows "(\<exists>m. q = Some m \<and> 1500 \<le> m) \<and>
         fetches (step s (Timeout i)) =
           fetches s @ [\<lparr>url = lit ''/detect'',
                         body = [(lit ''text'', trim (inputText_value s))]\<rparr>] \<and>
         detect_timers (step s (Timeout i)) = []"
proof -
  let ?r = "s\<lparr>timers := filter (\<lambda>t. tid t \<noteq> i) (timers s)\<rparr>"
  from n fire_fetch [of s i] obtain t where
    t: "find (\<lambda>t. tid t = i) (timers s) = Some t" "cb t = CbDetectLanguage"
      "due t \<le> clock s" "fire s i = detectLanguage ?r"
    by auto
  have m: "t \<in> set (timers s)" "tid t = i"
    using t(1) by (auto simp: find_Some_iff in_set_conv_nth)
  have h: "detectTimeout s = Some i"
    using k m t(2) by (auto simp: timers_ok_def)
  have q: "\<exists>m. q = Some m \<and> 1500 \<le> m"
    using d m(1) t(2) t(3) by (auto simp: due_ok_def split: option.splits)
  have f: "fetches (step s (Timeout i)) =
      fetches s @ [\<lparr>url = lit ''/detect'', body = [(lit ''text'', trim (inputText_value s))]\<rparr>]"
    using n t(4) detectLanguage_fetches [of ?r] by auto
  have "detect_timers ?r = []"
    using k h by (auto simp: detect_timers_def timers_ok_def filter_empty_conv)
  then have e: "detect_timers (step s (Timeout i)) = []"
    using t(4) by (simp add: detect_timers_def detectLanguage_timers)
  show ?thesis
    using q f e by blast
qed

lemma dispatch_input_value: "inputText_value (dispatch_input s) = inputText_value s"
  by (simp add: dispatch_input_def auto_detect_def update_counter_def clearTimeout_def
      setTimeout_def Let_def split: option.splits)

lemma run_callback_value: "inputText_value (run_callback s f) = inputText_value s"
  by (cases f)
    (simp_all add: run_callback_def detectLanguage_def fetch_def Let_def alert_auto_remove_def
      alert_remove_def setTimeout_def alert_set_animation_def)

lemma fire_value: "inputText_value (fire s i) = inputText_value s"
  using fire_cases [of s i] by (auto simp: run_callback_value)

lemma typed_run:
  "typing_only evs \<Longrightarrow> typed evs = Some w \<Longrightarrow> inputText_value (run s evs) = w"
proof (induction evs arbitrary: w rule: rev_induct)
  case Nil
  then show ?case by (simp add: typed_def)
next
  case (snoc e evs)
  from snoc.prems(1) have o: "typing_only evs"
    by (simp add: typing_only_def)
  show ?case
  proof (cases e)
    case (Input v)
    then show ?thesis
      using snoc.prems(2) by (simp add: typed_def run_def dispatch_input_value)
  next
    case (Timeout i)
    then have "typed evs = Some w"
      using snoc.prems(2) by (simp add: typed_def)
    then show ?thesis
      using snoc.IH [OF o] Timeout by (simp add: run_def fire_value)
  next
    case (Elapse d)
    then have "typed evs = Some w"
      using snoc.prems(2) by (simp add: typed_def)
    then show ?thesis
      using snoc.IH [OF o] Elapse by (simp add: run_def)
  qed (use snoc.prems(1) in \<open>simp_all add: typing_only_def\<close>)
qed

text \<open>A due detection timer that fires sends the request when the text is long enough.\<close>

lemma detectLanguage_sends:
  "3 \<le> length (trim (inputText_value s)) \<Longrightarrow>
     fetches (detectLanguage s) =
       fetches s @ [\<lparr>url = lit ''/detect'', body = [(lit ''text'', trim (inputText_value s))]\<rparr>]"
  by (simp add: detectLanguage_def Let_def fetch_def)

lemma due_detection_timer_sends:
  assumes "find (\<lambda>t. tid t = i) (timers s) = Some t" "cb t = CbDetectLanguage"
    and "due t \<le> clock s" "3 \<le> length (trim (inputText_value s))"
  shows "fetches (step s (Timeout i)) =
           fetches s @ [\<lparr>url = lit ''/detect'',
                         body = [(lit ''text'', trim (inputText_value s))]\<rparr>]"
  using assms by (simp add: fire_def run_callback_def detectLanguage_sends)

lemma find_by_key:
  "distinct (map f xs) \<Longrightarrow> x \<in> set xs \<Longrightarrow> find (\<lambda>y. f y = f x) xs = Some x"
  by (induction xs) (auto simp: image_iff)

lemma find_pending_timer:
  assumes k: "timers_ok s" and t: "t \<in> set (detect_timers s)"
  shows "find (\<lambda>x. tid x = tid t) (timers s) = Some t"
proof -
  have "distinct (map tid (timers s))" "t \<in> set (timers s)"
    using k t by (simp_all add: timers_ok_def detect_timers_def)
  then show ?thesis
    by (rule find_by_key)
qed

lemma fire_detect_timers:
  "set (detect_timers (fire s i)) \<subseteq> set (detect_timers s)"
proof -
  have sub: "set (detect_timers (run_callback (s\<lparr>timers := filter P (timers s)\<rparr>) f))
      \<subseteq> set (detect_timers s)" for P f
    unfolding added_detect_timers [OF added_run_callback [OF added_refl]]
    by (auto simp: detect_timers_def)
  from fire_cases [of s i] show ?thesis
  proof (elim disjE exE conjE)
    assume "fire s i = s"
    then show ?thesis by simp
  next
    fix t
    assume "fire s i =
      run_callback (s\<lparr>timers := filter (\<lambda>t. tid t \<noteq> i) (timers s)\<rparr>) (cb t)"
    then show ?thesis using sub by simp
  qed
qed

lemma run_timers_ok: "timers_ok s \<Longrightarrow> timers_ok (run s evs)"
  unfolding run_def by (induction evs arbitrary: s) (simp_all add: step_timers_ok)

text \<open>
  While only edits, time and timers happen, a pending detection timer was armed for
  the text now in the text area, which has at least 3 code units when trimmed.
\<close>

lemma typing_pending_text:
  assumes k: "timers_ok s" and e: "detect_timers s = []" and o: "typing_only evs"
  shows "detect_timers (run s evs) \<noteq> [] \<longrightarrow> 3 \<le> length (trim (inputText_value (run s evs)))"
  using o
proof (induction evs rule: rev_induct)
  case Nil
  then show ?case
    using e by (simp add: run_def)
next
  case (snoc x evs)
  from snoc.prems have o': "typing_only evs"
    by (simp add: typing_only_def)
  note ih = snoc.IH [OF o']
  have r: "timers_ok (run s evs)"
    by (rule run_timers_ok [OF k])
  have a: "run s (evs @ [x]) = step (run s evs) x"
    by (simp add: run_def)
  show ?case
  proof (cases x)
    case (Input v)
    have "inputText_value (step (run s evs) (Input v)) = v"
      by (simp add: dispatch_input_value)
    then show ?thesis
      using input_detect_timers [OF r, of v] Input a by (simp split: if_splits)
  next
    case (Timeout i)
    have "detect_timers (fire (run s evs) i) \<noteq> [] \<longrightarrow> detect_timers (run s evs) \<noteq> []"
      using fire_detect_timers [of "run s evs" i] by auto
    then show ?thesis
      using ih Timeout a by (simp add: fire_value)
  next
    case (Elapse d)
    then show ?thesis
      using ih a by (simp add: detect_timers_def)
  qed (use snoc.prems in \<open>simp_all add: typing_only_def\<close>)
qed

lemma pending_detection_timer_sends:
  assumes k: "timers_ok s" and e: "detect_timers s = []" and o: "typing_only evs"
    and t: "t \<in> set (detect_timers (run s evs))"
    and q: "quiet evs = Some n" "1500 \<le> n"
  shows "fetches (step (run s evs) (Timeout (tid t))) =
           fetches (run s evs) @
             [\<lparr>url = lit ''/detect'',
               body = [(lit ''text'', trim (inputText_value (run s evs)))]\<rparr>]"
proof -
  let ?r = "run s evs"
  have r: "timers_ok ?r"
    by (rule run_timers_ok [OF k])
  have "due_ok s None"
    using e by (auto simp: due_ok_def detect_timers_def filter_empty_conv)
  then have "due_ok ?r (Some n)"
    using run_invariant [OF k, of None evs] q(1) by (simp add: quiet_def)
  moreover have m: "t \<in> set (timers ?r)" "cb t = CbDetectLanguage"
    using t by (simp_all add: detect_timers_def)
  ultimately have "due t + n = clock ?r + 1500"
    by (auto simp: due_ok_def)
  then have d: "due t \<le> clock ?r"
    using q(2) by simp
  have l: "3 \<le> length (trim (inputText_value ?r))"
    using typing_pending_text [OF k e o] t by auto
  show ?thesis
    by (rule due_detection_timer_sends [OF find_pending_timer [OF r t] m(2) d l])
qed

lemma dispatch_input_fetches: "fetches (dispatch_input s) = fetches s"
  by (simp add: dispatch_input_def auto_detect_def update_counter_def clearTimeout_def
      setTimeout_def Let_def split: option.splits)

lemma dispatch_input_clock: "clock (dispatch_input s) = clock s"
  by (simp add: dispatch_input_def auto_detect_def update_counter_def clearTimeout_def
      setTimeout_def Let_def split: option.splits)

lemma edit_then_quiet_sends:
  assumes k: "timers_ok s" and l: "3 \<le> length (trim v)" and d: "1500 \<le> d"
  shows "fetches (run s (evs @ [Input v, Elapse d, Timeout (next_tid (run s evs))])) =
           fetches (run s evs) @ [\<lparr>url = lit ''/detect'', body = [(lit ''text'', trim v)]\<rparr>]"
proof -
  let ?r = "run s evs"
  let ?t = "\<lparr>tid = next_tid ?r, due = clock ?r + 1500, cb = CbDetectLanguage\<rparr>"
  let ?a = "step ?r (Input v)"
  let ?b = "step ?a (Elapse d)"
  have r: "timers_ok ?r"
    by (rule run_timers_ok [OF k])
  have a: "detect_timers ?a = [?t]"
    using input_detect_timers [OF r, of v] l by simp
  have b: "timers_ok ?b"
    by (intro step_timers_ok r)
  have "detect_timers ?b = [?t]"
    using a by (simp add: detect_timers_def)
  then have f: "find (\<lambda>x. tid x = tid ?t) (timers ?b) = Some ?t"
    by (intro find_pending_timer [OF b]) simp
  have v: "inputText_value ?b = v" "fetches ?b = fetches ?r" "clock ?b = clock ?r + d"
    by (simp_all add: dispatch_input_value dispatch_input_fetches dispatch_input_clock)
  have "fetches (step ?b (Timeout (next_tid ?r))) =
      fetches ?b @ [\<lparr>url = lit ''/detect'', body = [(lit ''text'', trim (inputText_value ?b))]\<rparr>]"
    using f d l v by (intro due_detection_timer_sends [where t = ?t]) simp_all
  then show ?thesis
    using v by (simp add: run_def)
qed

text \<open>
  C4. From a page whose timers are in order, after every sequence of events at most
  one detection timer is pending. An edit of the text area cancels the pending
  detection timer and arms a new one, due 1500 ms later, exactly when the trimmed
  text has at least 3 code units. When no detection timer was pending at the start
  and a timer firing sends a request, then at least 1500 ms have passed since the
  last \<open>input\<close> (so no timer armed by an earlier edit of a rapid series fires), the
  request goes to \<open>/detect\<close> with the trimmed content of the text area, and no
  detection timer is pending after it. In a sequence of edits, time passing and
  timers firing, the content of the text area is what the last edit left; and in
  such a sequence from a page with no detection timer pending, a detection timer
  that is pending once 1500 ms have passed since the last \<open>input\<close> does send, when
  it fires, the request with the trimmed content of the text area. After any
  sequence of events, an edit that leaves a text of at least 3 trimmed code units,
  1500 ms or more passing and the timer of that edit firing send exactly one request
  to \<open>/detect\<close>, carrying the trimmed text of that edit.
\<close>

theorem detection_is_debounced:
  "timers_ok s \<longrightarrow>
     length (detect_timers (run s evs)) \<le> 1 \<and>
     detect_timers (step (run s evs) (Input v)) =
       (if 3 \<le> length (trim v)
        then [\<lparr>tid = next_tid (run s evs), due = clock (run s evs) + 1500,
               cb = CbDetectLanguage\<rparr>]
        else []) \<and>
     (detect_timers s = [] \<and> fetches (step (run s evs) (Timeout i)) \<noteq> fetches (run s evs) \<longrightarrow>
        (\<exists>n. quiet evs = Some n \<and> 1500 \<le> n) \<and>
        fetches (step (run s evs) (Timeout i)) =
          fetches (run s evs) @
            [\<lparr>url = lit ''/detect'',
              body = [(lit ''text'', trim (inputText_value (run s evs)))]\<rparr>] \<and>
        detect_timers (step (run s evs) (Timeout i)) = []) \<and>
     (typing_only evs \<and> typed evs = Some w \<longrightarrow> inputText_value (run s evs) = w) \<and>
     (detect_timers s = [] \<and> typing_only evs \<and> t \<in> set (detect_timers (run s evs)) \<and>
      quiet evs = Some m \<and> 1500 \<le> m \<longrightarrow>
        fetches (step (run s evs) (Timeout (tid t))) =
          fetches (run s evs) @
            [\<lparr>url = lit ''/detect'',
              body = [(lit ''text'', trim (inputText_value (run s evs)))]\<rparr>]) \<and>
     (3 \<le> length (trim v) \<and> 1500 \<le> d \<longrightarrow>
        fetches (run s (evs @ [Input v, Elapse d, Timeout (next_tid (run s evs))])) =
          fetches (run s evs) @ [\<lparr>url = lit ''/detect'', body = [(lit ''text'', trim v)]\<rparr>])"
proof
  assume k: "timers_ok s"
  have r: "timers_ok (run s evs)"
  proof -
    show ?thesis
      by (rule run_timers_ok [OF k])
  qed
  have 1: "length (detect_timers (run s evs)) \<le> 1"
    by (rule detect_timers_le1 [OF r])
  have 2: "detect_timers (step (run s evs) (Input v)) =
       (if 3 \<le> length (trim v)
        then [\<lparr>tid = next_tid (run s evs), due = clock (run s evs) + 1500,
               cb = CbDetectLanguage\<rparr>]
        else [])"
    by (rule input_detect_timers [OF r])
  have 3: "(\<exists>n. quiet evs = Some n \<and> 1500 \<le> n) \<and>
        fetches (step (run s evs) (Timeout i)) =
          fetches (run s evs) @
            [\<lparr>url = lit ''/detect'',
              body = [(lit ''text'', trim (inputText_value (run s evs)))]\<rparr>] \<and>
        detect_timers (step (run s evs) (Timeout i)) = []"
    if e: "detect_timers s = []"
      and n: "fetches (step (run s evs) (Timeout i)) \<noteq> fetches (run s evs)"
  proof -
    have "due_ok s None"
      using e by (auto simp: due_ok_def detect_timers_def filter_empty_conv)
    then have "due_ok (run s evs) (quiet evs)"
      using run_invariant [OF k, of None evs] by (simp add: quiet_def)
    then show ?thesis
      using timeout_fetch [OF r _ n] by blast
  qed
  have 4: "typing_only evs \<and> typed evs = Some w \<longrightarrow> inputText_value (run s evs) = w"
    using typed_run [of evs w s] by blast
  have 5: "detect_timers s = [] \<and> typing_only evs \<and> t \<in> set (detect_timers (run s evs)) \<and>
      quiet evs = Some m \<and> 1500 \<le> m \<longrightarrow>
        fetches (step (run s evs) (Timeout (tid t))) =
          fetches (run s evs) @
            [\<lparr>url = lit ''/detect'',
              body = [(lit ''text'', trim (inputText_value (run s evs)))]\<rparr>]"
    using pending_detection_timer_sends [OF k, of evs t m] by blast
  have 6: "3 \<le> length (trim v) \<and> 1500 \<le> d \<longrightarrow>
        fetches (run s (evs @ [Input v, Elapse d, Timeout (next_tid (run s evs))])) =
          fetches (run s evs) @ [\<lparr>url = lit ''/detect'', body = [(lit ''text'', trim v)]\<rparr>]"
    using edit_then_quiet_sends [OF k, of v d evs] by blast
  show "length (detect_timers (run s evs)) \<le> 1 \<and>
     detect_timers (step (run s evs) (Input v)) =
       (if 3 \<le> length (trim v)
        then [\<lparr>tid = next_tid (run s evs), due = clock (run s evs) + 1500,
               cb = CbDetectLanguage\<rparr>]
        else []) \<and>
     (detect_timers s = [] \<and> fetches (step (run s evs) (Timeout i)) \<noteq> fetches (run s evs) \<longrightarrow>
        (\<exists>n. quiet evs = Some n \<and> 1500 \<le> n) \<and>
        fetches (step (run s evs) (Timeout i)) =
          fetches (run s evs) @
            [\<lparr>url = lit ''/detect'',
              body = [(lit ''text'', trim (inputText_value (run s evs)))]\<rparr>] \<and>
        detect_timers (step (run s evs) (Timeout i)) = []) \<and>
     (typing_only evs \<and> typed evs = Some w \<longrightarrow> inputText_value (run s evs) = w) \<and>
     (detect_timers s = [] \<and> typing_only evs \<and> t \<in> set (detect_timers (run s evs)) \<and>
      quiet evs = Some m \<and> 1500 \<le> m \<longrightarrow>
        fetches (step (run s evs) (Timeout (tid t))) =
          fetches (run s evs) @
            [\<lparr>url = lit ''/detect'',
              body = [(lit ''text'', trim (inputText_value (run s evs)))]\<rparr>]) \<and>
     (3 \<le> length (trim v) \<and> 1500 \<le> d \<longrightarrow>
        fetches (run s (evs @ [Input v, Elapse d, Timeout (next_tid (run s evs))])) =
          fetches (run s evs) @ [\<lparr>url = lit ''/detect'', body = [(lit ''text'', trim v)]\<rparr>])"
    using 1 2 3 4 5 6 by blast
qed

text \<open>The definitions to unfold when a typing run of \<open>example_page\<close> is evaluated.\<close>

lemmas typing_defs =
  run_def example_page_def dispatch_input_def auto_detect_def update_counter_def
  clearTimeout_def setTimeout_def fire_def run_callback_def detectLanguage_def fetch_def
  Let_def trim_def lit_def isWhiteSpace_def detect_timers_def

theorem detection_is_debounced_witness:
  "timers_ok example_page \<and> detect_timers example_page = [] \<and>
   typing_only [Input (lit ''hel''), Elapse 500, Input (lit ''hello ''), Elapse 1500] \<and>
   typed [Input (lit ''hel''), Elapse 500, Input (lit ''hello ''), Elapse 1500] =
     Some (lit ''hello '') \<and>
   quiet [Input (lit ''hel''), Elapse 500, Input (lit ''hello ''), Elapse 1500] = Some 1500 \<and>
   length (detect_timers
     (run example_page [Input (lit ''hel''), Elapse 500, Input (lit ''hello ''), Elapse 1500]))
     \<le> 1 \<and>
   fetches (run example_page
     [Input (lit ''hel''), Elapse 500, Input (lit ''hello ''), Elapse 1500]) = [] \<and>
   fetches (step (run example_page
     [Input (lit ''hel''), Elapse 500, Input (lit ''hello ''), Elapse 1500]) (Timeout 2)) =
     [\<lparr>url = lit ''/detect'', body = [(lit ''text'', lit ''hello'')]\<rparr>] \<and>
   detect_timers (step (run example_page
     [Input (lit ''hel''), Elapse 500, Input (lit ''hello ''), Elapse 1500]) (Timeout 2)) = [] \<and>
   detect_timers (step (run example_page
     [Input (lit ''hel''), Elapse 500, Input (lit ''hello ''), Elapse 1500]) (Input (lit ''hi'')))
     = [] \<and>
   inputText_value (run example_page
     [Input (lit ''hel''), Elapse 500, Input (lit ''hello ''), Elapse 1500]) = lit ''hello '' \<and>
   \<lparr>tid = 2, due = 2000, cb = CbDetectLanguage\<rparr> \<in> set (detect_timers (run example_page
     [Input (lit ''hel''), Elapse 500, Input (lit ''hello ''), Elapse 1500])) \<and>
   3 \<le> length (trim (lit ''hey'')) \<and>
   fetches (run example_page
     ([Input (lit ''hel''), Elapse 500, Input (lit ''hello ''), Elapse 1500] @
      [Input (lit ''hey''), Elapse 1500,
       Timeout (next_tid (run example_page
         [Input (lit ''hel''), Elapse 500, Input (lit ''hello ''), Elapse 1500]))])) =
     [\<lparr>url = lit ''/detect'', body = [(lit ''text'', lit ''hey'')]\<rparr>] \<and>
   fetches (run example_page
     [Input (lit ''hel''), Elapse 500, Timeout 1, Input (lit ''hello ''), Elapse 1499,
      Timeout 1, Timeout 2]) = []"
proof -
  let ?evs = "[Input (lit ''hel''), Elapse 500, Input (lit ''hello ''), Elapse 1500]"
  have k: "timers_ok example_page"
    by (simp add: timers_ok_def example_page_def)
  have e: "detect_timers example_page = []"
    by (simp add: detect_timers_def example_page_def)
  have t: "typing_only ?evs" "typed ?evs = Some (lit ''hello '')" "quiet ?evs = Some 1500"
    by (simp_all add: typing_only_def typed_def quiet_def quiet_step_def)
  have f: "fetches (run example_page ?evs) = []"
    by (simp add: typing_defs)
  have g: "fetches (step (run example_page ?evs) (Timeout 2)) =
      [\<lparr>url = lit ''/detect'', body = [(lit ''text'', lit ''hello'')]\<rparr>]"
    by (simp add: typing_defs)
  have n: "fetches (step (run example_page ?evs) (Timeout 2)) \<noteq> fetches (run example_page ?evs)"
    unfolding f g by simp
  have h: "\<not> 3 \<le> length (trim (lit ''hi''))"
    by (simp add: trim_def lit_def isWhiteSpace_def)
  have x: "fetches (run example_page
     [Input (lit ''hel''), Elapse 500, Timeout 1, Input (lit ''hello ''), Elapse 1499,
      Timeout 1, Timeout 2]) = []"
    by (simp add: typing_defs)
  note T = detection_is_debounced
    [where s = example_page and evs = ?evs and v = "lit ''hi''" and i = 2
       and w = "lit ''hello ''" and t = "\<lparr>tid = 2, due = 2000, cb = CbDetectLanguage\<rparr>"
       and m = 1500]
  note U = detection_is_debounced
    [where s = example_page and evs = ?evs and v = "lit ''hey''" and d = 1500]
  have c1: "length (detect_timers (run example_page ?evs)) \<le> 1"
    using T k by blast
  have c2: "detect_timers (step (run example_page ?evs) (Input (lit ''hi''))) = []"
    using T k h by simp
  have c3: "detect_timers (step (run example_page ?evs) (Timeout 2)) = []"
    using T k e n by blast
  have c4: "inputText_value (run example_page ?evs) = lit ''hello ''"
    using T k t by blast
  have c5: "fetches (step (run example_page ?evs) (Timeout 2)) =
      fetches (run example_page ?evs) @
        [\<lparr>url = lit ''/detect'',
          body = [(lit ''text'', trim (inputText_value (run example_page ?evs)))]\<rparr>]"
    using T k e n by blast
  have p: "\<lparr>tid = 2, due = 2000, cb = CbDetectLanguage\<rparr> \<in> set (detect_timers (run example_page ?evs))"
    by (simp add: typing_defs)
  have c6: "fetches (step (run example_page ?evs) (Timeout 2)) =
      fetches (run example_page ?evs) @
        [\<lparr>url = lit ''/detect'',
          body = [(lit ''text'', trim (inputText_value (run example_page ?evs)))]\<rparr>]"
    using T k e t p by simp
  have y: "3 \<le> length (trim (lit ''hey''))" "trim (lit ''hey'') = lit ''hey''"
    by (simp_all add: trim_def lit_def isWhiteSpace_def)
  have c7: "fetches (run example_page
      (?evs @ [Input (lit ''hey''), Elapse 1500, Timeout (next_tid (run example_page ?evs))])) =
      [\<lparr>url = lit ''/detect'', body = [(lit ''text'', lit ''hey'')]\<rparr>]"
    using U k y f by simp
  show ?thesis
    using k e t f g x c1 c2 c3 c4 c5 p y c7 by simp
qed

end
